theory Spec2Isabelle
  imports Complex_Main "HOL-Library.Sublist" "HOL-Library.Multiset"
begin

section \<open>Documents and the metadata-shaping loop of index.py\<close>

text \<open>
  A document (and a node: the library's Document is a TextNode) as the script uses it:
  its identity, its text (the field \<open>doc_text\<close>), its metadata dictionary, the
  text template, and the two lists of metadata keys left out when the text is rendered
  for the embedding model (\<open>excluded_embed_metadata_keys\<close>) and for the language
  model (\<open>excluded_llm_metadata_keys\<close>). The lists are Python lists, so order and
  duplicates are kept.
\<close>

record document =
  doc_id :: string
  doc_text :: string
  metadata :: "(string \<times> string) list"
  text_template :: string
  excluded_embed_metadata_keys :: "string list"
  excluded_llm_metadata_keys :: "string list"

text \<open>The template string assigned on line 79, with its four line breaks.\<close>

definition shaped_text_template :: string where
  "shaped_text_template =
     ''Metadata:'' @ [CHR 0x0A] @ ''{metadata_str}'' @ [CHR 0x0A] @ ''-----'' @ [CHR 0x0A]
       @ ''Content:'' @ [CHR 0x0A] @ ''{content}''"

text \<open>
  The body of the loop of lines 77 to 83, on one document: the template is assigned,
  then \<open>page_label\<close> is appended to \<open>excluded_embed_metadata_keys\<close> unless it is
  already a member. The mutation in place is the returned record.
\<close>

definition shape_doc :: "document \<Rightarrow> document" where
  "shape_doc doc =
     (let doc1 = doc\<lparr>text_template := shaped_text_template\<rparr>
      in if ''page_label'' \<notin> set (excluded_embed_metadata_keys doc1)
         then doc1\<lparr>excluded_embed_metadata_keys :=
                     excluded_embed_metadata_keys doc1 @ [''page_label'']\<rparr>
         else doc1)"

text \<open>The loop \<open>for doc in docs\<close>: every document of the list, in order.\<close>

fun shape_docs :: "document list \<Rightarrow> document list" where
  "shape_docs [] = []"
| "shape_docs (doc # docs) = shape_doc doc # shape_docs docs"

text \<open>
  A document as the directory reader builds it for one page of a PDF file: the reader
  puts the file's bookkeeping keys in both exclusion lists, and \<open>page_label\<close> in
  neither.
\<close>

definition reader_excluded_keys :: "string list" where
  "reader_excluded_keys =
     [''file_name'', ''file_type'', ''file_size'', ''creation_date'',
      ''last_modified_date'', ''last_accessed_date'']"

definition pdf_page :: document where
  "pdf_page =
     \<lparr>doc_id = ''doc-1'', doc_text = ''Attention is all you need.'',
      metadata = [(''page_label'', ''1''), (''file_name'', ''paper.pdf'')],
      text_template = ''{metadata_str}'' @ [CHR 0x0A, CHR 0x0A] @ ''{content}'',
      excluded_embed_metadata_keys = reader_excluded_keys,
      excluded_llm_metadata_keys = reader_excluded_keys\<rparr>"

section \<open>Exceptions, events and runs\<close>

text \<open>
  The exceptions the script can meet. \<open>AttributeError\<close>, \<open>KeyError\<close> and
  \<open>IndexError\<close> are raised by the script's own attribute lookup, dictionary lookup
  and list indexing; \<open>OtherException\<close> stands for any other class derived from
  \<open>Exception\<close> that a library call raises (its message is the argument).
  \<open>KeyboardInterrupt\<close> and \<open>SystemExit\<close> derive from \<open>BaseException\<close>
  only, so \<open>except Exception\<close> does not catch them.
\<close>

datatype pyexn =
    AttributeError string
  | KeyError string
  | IndexError string
  | OtherException string
  | KeyboardInterrupt
  | SystemExit

fun is_Exception :: "pyexn \<Rightarrow> bool" where
  "is_Exception KeyboardInterrupt = False"
| "is_Exception SystemExit = False"
| "is_Exception (AttributeError m) = True"
| "is_Exception (KeyError m) = True"
| "is_Exception (IndexError m) = True"
| "is_Exception (OtherException m) = True"

fun is_AttributeError :: "pyexn \<Rightarrow> bool" where
  "is_AttributeError (AttributeError m) = True"
| "is_AttributeError (KeyError m) = False"
| "is_AttributeError (IndexError m) = False"
| "is_AttributeError (OtherException m) = False"
| "is_AttributeError KeyboardInterrupt = False"
| "is_AttributeError SystemExit = False"

text \<open>
  The configuration objects the script builds. \<open>groq\<close> is the hosted language model
  client (lines 96 and 175); a transformation is one of the three objects of lines 110
  to 124, with the arguments the script gives.
\<close>

record groq =
  model :: string
  api_key :: string

datatype transformation =
    SentenceSplitter string nat nat
  | TitleExtractor groq nat
  | QuestionsAnsweredExtractor groq nat

datatype metadata_mode = LLM | EMBED

type_synonym embedding = "real list"

record response =
  answer :: string
  source_nodes :: "document list"

text \<open>
  What a run of the script does that can be seen from outside, in order: the calls it
  makes to the libraries and the lines it prints. \<open>Caught\<close> marks an exception that
  an \<open>except\<close> clause of the script handled; it names the clause (line 10 or line 20).
\<close>

datatype handler = Except_AttributeError | Except_Exception

datatype event =
    Caught handler pyexn
  | Download string
  | Print_Warning pyexn
  | Load_Data string
  | Print_Loaded nat
  | Transform transformation
  | Print_Transformed nat
  | Print_Content string
  | Load_Embedding_Model string
  | Embed_Text string string
  | Print_Test_Embedding embedding
  | Build_Index string nat
  | Synthesize groq "document list" string
  | Print_Response response
  | Print_Response_Dict response

text \<open>
  A run is the list of events so far and either the exception that ended it
  (\<open>Inl\<close>: nothing handles it, the process stops with a stack trace) or a value.
\<close>

type_synonym 'a run = "event list \<times> (pyexn + 'a)"

definition returns :: "'a \<Rightarrow> 'a run" where
  "returns x = ([], Inr x)"

definition emit :: "event \<Rightarrow> unit run" where
  "emit ev = ([ev], Inr ())"

definition call :: "event \<Rightarrow> pyexn + 'a \<Rightarrow> 'a run" where
  "call ev outcome = ([ev], outcome)"

definition bind_run :: "'a run \<Rightarrow> ('a \<Rightarrow> 'b run) \<Rightarrow> 'b run" where
  "bind_run m f =
     (case m of
        (tr, Inl e) \<Rightarrow> (tr, Inl e)
      | (tr, Inr x) \<Rightarrow> (case f x of (tr', r) \<Rightarrow> (tr @ tr', r)))"

section \<open>The world outside the script\<close>

text \<open>
  The \<open>ssl\<close> module as lines 9 to 13 read and write it: the private attribute
  \<open>_create_unverified_context\<close>, which a Python without it does not have
  (\<open>None\<close>), and \<open>_create_default_https_context\<close>, the factory HTTPS clients use.
\<close>

datatype context_factory = Verifying | Unverified

record ssl_module =
  create_unverified_context :: "context_factory option"
  create_default_https_context :: context_factory

text \<open>
  Everything the script does not compute itself is an outcome the world gives: what each
  library call returns or raises, the files, the environment and the hosted services.
  \<^item> \<open>ssl\<close>: the \<open>ssl\<close> module when the process starts;
  \<^item> \<open>nltk_download\<close>: \<open>nltk.download(corpus, quiet=True)\<close>;
  \<^item> \<open>load_data\<close>: \<open>SimpleDirectoryReader(input_dir=d).load_data()\<close>;
  \<^item> \<open>dotenv_file\<close>: the assignments of the \<open>.env\<close> file (empty when
    there is none); \<open>environ\<close>: \<open>os.environ\<close> when the process starts;
  \<^item> \<open>apply_transformation\<close>: one transformation object called on the nodes;
  \<^item> \<open>get_content\<close>: \<open>node.get_content(metadata_mode=m)\<close>;
  \<^item> \<open>load_embedding_model\<close>: \<open>HuggingFaceEmbedding(model_name=m)\<close>;
    \<open>get_text_embedding\<close>: the vector of a text under a model;
  \<^item> \<open>similarity\<close>: the score the vector store gives two vectors;
  \<^item> \<open>synthesize\<close>: the hosted model's answer to a query from the given chunks.
\<close>

record world =
  ssl :: ssl_module
  nltk_download :: "string \<Rightarrow> pyexn + bool"
  load_data :: "string \<Rightarrow> pyexn + document list"
  dotenv_file :: "string \<Rightarrow> string option"
  environ :: "string \<Rightarrow> string option"
  apply_transformation :: "transformation \<Rightarrow> document list \<Rightarrow> pyexn + document list"
  get_content :: "metadata_mode \<Rightarrow> document \<Rightarrow> string"
  load_embedding_model :: "string \<Rightarrow> pyexn + unit"
  get_text_embedding :: "string \<Rightarrow> string \<Rightarrow> pyexn + embedding"
  similarity :: "embedding \<Rightarrow> embedding \<Rightarrow> real"
  synthesize :: "groq \<Rightarrow> document list \<Rightarrow> string \<Rightarrow> pyexn + string"

section \<open>Start-up: lines 5 to 28\<close>

text \<open>
  Lines 8 to 13. Reading \<open>ssl._create_unverified_context\<close> raises
  \<open>AttributeError\<close> when the attribute is missing; the \<open>except AttributeError\<close>
  clause passes; otherwise the \<open>else\<close> branch installs the unverified factory.
  (\<open>nest_asyncio.apply()\<close> on line 5 patches the event loop and has no part here.)
\<close>

definition getattr_create_unverified_context :: "ssl_module \<Rightarrow> pyexn + context_factory" where
  "getattr_create_unverified_context m =
     (case create_unverified_context m of
        None \<Rightarrow> Inl (AttributeError ''_create_unverified_context'')
      | Some f \<Rightarrow> Inr f)"

definition ssl_stage :: "ssl_module \<Rightarrow> ssl_module run" where
  "ssl_stage m =
     (case getattr_create_unverified_context m of
        Inl e \<Rightarrow>
          if is_AttributeError e then ([Caught Except_AttributeError e], Inr m)
          else ([], Inl e)
      | Inr f \<Rightarrow> ([], Inr (m\<lparr>create_default_https_context := f\<rparr>)))"

text \<open>
  Lines 16 to 21. The three downloads run in order inside one \<open>try\<close>: the first
  that raises ends the block. \<open>except Exception as e\<close> handles an instance of
  \<open>Exception\<close> by printing the warning; anything else leaves the script.
\<close>

definition corpora :: "string list" where
  "corpora = [''stopwords'', ''punkt'', ''punkt_tab'']"

fun downloads :: "world \<Rightarrow> string list \<Rightarrow> unit run" where
  "downloads w [] = ([], Inr ())"
| "downloads w (c # cs) =
     (case nltk_download w c of
        Inl e \<Rightarrow> ([Download c], Inl e)
      | Inr ok \<Rightarrow> (case downloads w cs of (tr, r) \<Rightarrow> (Download c # tr, r)))"

definition nltk_stage :: "world \<Rightarrow> unit run" where
  "nltk_stage w =
     (case downloads w corpora of
        (tr, Inl e) \<Rightarrow>
          if is_Exception e then (tr @ [Caught Except_Exception e, Print_Warning e], Inr ())
          else (tr, Inl e)
      | (tr, Inr u) \<Rightarrow> (tr, Inr ()))"

text \<open>Lines 26 and 28: the loader and the count it prints.\<close>

definition load_stage :: "world \<Rightarrow> document list run" where
  "load_stage w =
     bind_run (call (Load_Data ''./data'') (load_data w ''./data'')) (\<lambda>docs.
     bind_run (emit (Print_Loaded (length docs))) (\<lambda>u.
     returns docs))"

definition startup :: "world \<Rightarrow> document list run" where
  "startup w =
     bind_run (ssl_stage (ssl w)) (\<lambda>m.
     bind_run (nltk_stage w) (\<lambda>u.
     load_stage w))"

section \<open>The language model clients and the ingestion pipeline: lines 89 to 152\<close>

text \<open>
  \<open>load_dotenv()\<close> (line 93) adds the assignments of the \<open>.env\<close> file to the
  environment and leaves the variables that are already set as they are.
\<close>

definition load_dotenv :: "(string \<Rightarrow> string option) \<Rightarrow> (string \<Rightarrow> string option) \<Rightarrow> string \<Rightarrow> string option" where
  "load_dotenv file env = (\<lambda>k. case env k of Some v \<Rightarrow> Some v | None \<Rightarrow> file k)"

text \<open>\<open>os.environ[k]\<close>: the value, or \<open>KeyError\<close> when the variable is not set.\<close>

definition environ_getitem :: "(string \<Rightarrow> string option) \<Rightarrow> string \<Rightarrow> pyexn + string" where
  "environ_getitem env k = (case env k of None \<Rightarrow> Inl (KeyError k) | Some v \<Rightarrow> Inr v)"

text \<open>\<open>Groq(model=m, api_key=os.environ['GROQ_API_KEY'])\<close>, lines 96 to 99 and 175 to 178.\<close>

definition Groq :: "(string \<Rightarrow> string option) \<Rightarrow> string \<Rightarrow> groq run" where
  "Groq env m =
     (case environ_getitem env ''GROQ_API_KEY'' of
        Inl e \<Rightarrow> ([], Inl e)
      | Inr k \<Rightarrow> returns \<lparr>model = m, api_key = k\<rparr>)"

text \<open>Lines 110 to 124: the splitter and the two extractors.\<close>

definition text_splitter :: transformation where
  "text_splitter = SentenceSplitter '' '' 1024 128"

definition title_extractor :: "groq \<Rightarrow> transformation" where
  "title_extractor llm_transformations = TitleExtractor llm_transformations 5"

definition questions_answered_extractor :: "groq \<Rightarrow> transformation" where
  "questions_answered_extractor llm_transformations =
     QuestionsAnsweredExtractor llm_transformations 3"

text \<open>Lines 130 to 136: the pipeline is the list of its transformations.\<close>

definition ingestion_pipeline :: "groq \<Rightarrow> transformation list" where
  "ingestion_pipeline llm_transformations =
     [text_splitter,
      title_extractor llm_transformations,
      questions_answered_extractor llm_transformations]"

text \<open>
  Modelled from the spec: \<open>IngestionPipeline.run\<close> is library code that is not in the
  sources. The spec has it as "a fixed ordered sequence of transformations applied to
  the documents": each transformation of the list is called on the nodes the one before
  returned, and an exception of any of them ends the run.
\<close>

fun run_transformations :: "world \<Rightarrow> transformation list \<Rightarrow> document list \<Rightarrow> document list run" where
  "run_transformations w [] nodes = ([], Inr nodes)"
| "run_transformations w (t # ts) nodes =
     (case apply_transformation w t nodes of
        Inl e \<Rightarrow> ([Transform t], Inl e)
      | Inr nodes' \<Rightarrow>
          (case run_transformations w ts nodes' of (tr, r) \<Rightarrow> (Transform t # tr, r)))"

text \<open>\<open>nodes[0]\<close> on line 152: \<open>IndexError\<close> on an empty list.\<close>

definition first_node :: "document list \<Rightarrow> document run" where
  "first_node nodes =
     (case nodes of
        [] \<Rightarrow> ([], Inl (IndexError ''list index out of range''))
      | n # ns \<Rightarrow> returns n)"

text \<open>
  Lines 93 to 152 on the shaped documents: the environment after \<open>load_dotenv\<close>, the
  client of the transformations, the pipeline run, and the two prints.
\<close>

definition ingest :: "world \<Rightarrow> document list \<Rightarrow> document list run" where
  "ingest w docs =
     (let env = load_dotenv (dotenv_file w) (environ w) in
      bind_run (Groq env ''llama-3.1-8b-instant'') (\<lambda>llm_transformations.
      bind_run (run_transformations w (ingestion_pipeline llm_transformations) docs) (\<lambda>nodes.
      bind_run (emit (Print_Transformed (length nodes))) (\<lambda>u.
      bind_run (first_node nodes) (\<lambda>n0.
      bind_run (emit (Print_Content (get_content w EMBED n0))) (\<lambda>u.
      returns nodes))))))"

section \<open>The embedding model, the index and the query: lines 156 to 192\<close>

text \<open>
  Lines 158 to 161: the local embedding model is loaded and one test sentence is
  embedded and printed. The model is known by its name from here on.
\<close>

definition embedding_stage :: "world \<Rightarrow> string run" where
  "embedding_stage w =
     (let model_name = ''BAAI/bge-small-en-v1.5'' in
      bind_run (call (Load_Embedding_Model model_name) (load_embedding_model w model_name)) (\<lambda>u.
      bind_run (call (Embed_Text model_name ''This is a test embedding.'')
                  (get_text_embedding w model_name ''This is a test embedding.'')) (\<lambda>test_embedding.
      bind_run (emit (Print_Test_Embedding test_embedding)) (\<lambda>u.
      returns model_name))))"

text \<open>
  Modelled from the spec: \<open>VectorStoreIndex\<close> is library code that is not in the
  sources. The spec has the indexer compute "a vector embedding for every chunk" and
  store "all chunks + embeddings in an in-memory vector index": the index is the list of
  the chunks with their vectors, each the embedding of the chunk's text as the embedding
  model sees it, and the name of the model.
\<close>

record vector_index =
  entries :: "(document \<times> embedding) list"
  embed_model :: string

fun embed_nodes :: "world \<Rightarrow> string \<Rightarrow> document list \<Rightarrow> (document \<times> embedding) list run" where
  "embed_nodes w m [] = ([], Inr [])"
| "embed_nodes w m (n # ns) =
     (case get_text_embedding w m (get_content w EMBED n) of
        Inl e \<Rightarrow> ([Embed_Text m (get_content w EMBED n)], Inl e)
      | Inr v \<Rightarrow>
          (case embed_nodes w m ns of
             (tr, Inl e) \<Rightarrow> (Embed_Text m (get_content w EMBED n) # tr, Inl e)
           | (tr, Inr es) \<Rightarrow> (Embed_Text m (get_content w EMBED n) # tr, Inr ((n, v) # es))))"

definition VectorStoreIndex :: "world \<Rightarrow> document list \<Rightarrow> string \<Rightarrow> vector_index run" where
  "VectorStoreIndex w nodes m =
     bind_run (emit (Build_Index m (length nodes))) (\<lambda>u.
     bind_run (embed_nodes w m nodes) (\<lambda>es.
     returns \<lparr>entries = es, embed_model = m\<rparr>))"

text \<open>
  Modelled from the spec: the query engine is library code that is not in the sources.
  The spec: "given one free-text query, embeds it, retrieves the top-K most similar
  chunks, and asks a (larger) hosted language model to synthesize an answer from them",
  with top-K retrieval "returning the K stored items most similar to a query vector".
  \<open>retrieve\<close> orders the stored chunks by falling similarity to the query vector and
  keeps the first K; \<open>query\<close> embeds the query with the index's model, retrieves, and
  hands the chunks and the query to the language model.
\<close>

record query_engine =
  engine_index :: vector_index
  engine_llm :: groq
  similarity_top_k :: nat

definition as_query_engine :: "vector_index \<Rightarrow> groq \<Rightarrow> nat \<Rightarrow> query_engine" where
  "as_query_engine idx llm k = \<lparr>engine_index = idx, engine_llm = llm, similarity_top_k = k\<rparr>"

definition ranked :: "world \<Rightarrow> vector_index \<Rightarrow> embedding \<Rightarrow> (document \<times> embedding) list" where
  "ranked w idx qv = sort_key (\<lambda>(n, v). - similarity w qv v) (entries idx)"

definition retrieve :: "world \<Rightarrow> nat \<Rightarrow> vector_index \<Rightarrow> embedding \<Rightarrow> document list" where
  "retrieve w k idx qv = map fst (take k (ranked w idx qv))"

definition query :: "world \<Rightarrow> query_engine \<Rightarrow> string \<Rightarrow> response run" where
  "query w qe q =
     (let idx = engine_index qe; llm = engine_llm qe in
      bind_run (call (Embed_Text (embed_model idx) q)
                  (get_text_embedding w (embed_model idx) q)) (\<lambda>qv.
      let chunks = retrieve w (similarity_top_k qe) idx qv in
      bind_run (call (Synthesize llm chunks q) (synthesize w llm chunks q)) (\<lambda>a.
      returns \<lparr>answer = a, source_nodes = chunks\<rparr>)))"

text \<open>
  Lines 175 to 192: the client of the query (the environment is the one
  \<open>load_dotenv\<close> left), the engine with \<open>similarity_top_k=5\<close>, the one query, and
  the two prints of the response.
\<close>

definition the_query :: string where
  "the_query = ''What does this document talk about?''"

definition query_stage :: "world \<Rightarrow> vector_index \<Rightarrow> response run" where
  "query_stage w index =
     (let env = load_dotenv (dotenv_file w) (environ w) in
      bind_run (Groq env ''llama-3.3-70b-versatile'') (\<lambda>llm_querying.
      let engine = as_query_engine index llm_querying 5 in
      bind_run (query w engine the_query) (\<lambda>response.
      bind_run (emit (Print_Response response)) (\<lambda>u.
      bind_run (emit (Print_Response_Dict response)) (\<lambda>u.
      returns response)))))"

section \<open>The script\<close>

text \<open>
  The whole of index.py: start-up and loading, the shaping loop, the ingestion pipeline,
  the embedding model, the index, the query. The imports and the constructors that only
  store their arguments (\<open>Groq\<close>, \<open>SentenceSplitter\<close>, the extractors,
  \<open>IngestionPipeline\<close>, \<open>as_query_engine\<close>) are taken to succeed; progress
  bars are not part of a run.
\<close>

definition main :: "world \<Rightarrow> response run" where
  "main w =
     bind_run (startup w) (\<lambda>docs.
     bind_run (ingest w (shape_docs docs)) (\<lambda>nodes.
     bind_run (embedding_stage w) (\<lambda>hf_embedding.
     bind_run (VectorStoreIndex w nodes hf_embedding) (\<lambda>index.
     query_stage w index))))"

section \<open>A sample world\<close>

text \<open>
  A world in which every call succeeds, for evaluating the script: one PDF page is
  loaded, the splitter keeps it as one chunk, the extractors add a title and a question,
  a text is embedded as its length, and closer lengths are more similar.
\<close>

fun sample_transformation :: "transformation \<Rightarrow> document list \<Rightarrow> pyexn + document list" where
  "sample_transformation (SentenceSplitter sep chunk_size chunk_overlap) nodes = Inr nodes"
| "sample_transformation (TitleExtractor llm n) nodes =
     Inr (map (\<lambda>d. d\<lparr>metadata := metadata d @ [(''document_title'', ''Attention'')]\<rparr>) nodes)"
| "sample_transformation (QuestionsAnsweredExtractor llm n) nodes =
     Inr (map (\<lambda>d. d\<lparr>metadata := metadata d
                 @ [(''questions_this_excerpt_can_answer'', ''What is attention?'')]\<rparr>) nodes)"

definition sample_world :: world where
  "sample_world =
     \<lparr>ssl = \<lparr>create_unverified_context = Some Unverified,
              create_default_https_context = Verifying\<rparr>,
      nltk_download = (\<lambda>c. Inr True),
      load_data = (\<lambda>d. Inr [pdf_page]),
      dotenv_file = (\<lambda>k. None),
      environ = (\<lambda>k. if k = ''GROQ_API_KEY'' then Some ''gsk_test'' else None),
      apply_transformation = sample_transformation,
      get_content = (\<lambda>m d. doc_text d),
      load_embedding_model = (\<lambda>m. Inr ()),
      get_text_embedding = (\<lambda>m t. Inr [real (length t)]),
      similarity = (\<lambda>a b. - \<bar>sum_list a - sum_list b\<bar>),
      synthesize = (\<lambda>llm chunks q. Inr ''It is about attention.'')\<rparr>"

text \<open>Worlds that differ from the sample in one outcome each.\<close>

definition world_without_key :: world where
  "world_without_key = sample_world\<lparr>environ := (\<lambda>k. None)\<rparr>"

definition world_without_ssl_attribute :: world where
  "world_without_ssl_attribute =
     sample_world\<lparr>ssl := \<lparr>create_unverified_context = None,
                             create_default_https_context = Verifying\<rparr>\<rparr>"

definition world_download_fails :: world where
  "world_download_fails =
     sample_world\<lparr>nltk_download :=
       (\<lambda>c. if c = ''punkt'' then Inl (OtherException ''network unreachable'') else Inr True)\<rparr>"

definition world_interrupted :: world where
  "world_interrupted =
     sample_world\<lparr>nltk_download :=
       (\<lambda>c. if c = ''punkt'' then Inl KeyboardInterrupt else Inr True)\<rparr>"

definition world_splitter_fails :: world where
  "world_splitter_fails =
     sample_world\<lparr>apply_transformation :=
       (\<lambda>t nodes. case t of
           SentenceSplitter sep chunk_size chunk_overlap \<Rightarrow>
             Inl (OtherException ''Metadata length is longer than chunk size'')
         | TitleExtractor llm n \<Rightarrow> sample_transformation t nodes
         | QuestionsAnsweredExtractor llm n \<Rightarrow> sample_transformation t nodes)\<rparr>"

text \<open>An index of seven chunks, each embedded as the sample world embeds its text.\<close>

definition sample_chunk :: "string \<Rightarrow> string \<Rightarrow> document" where
  "sample_chunk i t = pdf_page\<lparr>doc_id := i, doc_text := t\<rparr>"

definition sample_chunks :: "document list" where
  "sample_chunks =
     [sample_chunk ''n1'' ''Attention.'',
      sample_chunk ''n2'' ''The Transformer uses attention only.'',
      sample_chunk ''n3'' ''Recurrent networks process tokens in order, one step after another.'',
      sample_chunk ''n4'' ''We train on eight GPUs for twelve hours.'',
      sample_chunk ''n5'' ''BLEU 28.4 on WMT 2014 English-German.'',
      sample_chunk ''n6'' ''Self-attention relates positions.'',
      sample_chunk ''n7'' ''Multi-head attention has 8 heads.'']"

definition sample_index :: vector_index where
  "sample_index =
     \<lparr>entries = map (\<lambda>d. (d, [real (length (doc_text d))])) sample_chunks,
      embed_model = ''BAAI/bge-small-en-v1.5''\<rparr>"

section \<open>Reading a trace\<close>

text \<open>
  The events of the stages that come after the first lookup of the API key on line 98:
  the ingestion pipeline, the embedding model, the index and the query. The events of
  lines 5 to 28 are not among them.
\<close>

fun later_stage :: "event \<Rightarrow> bool" where
  "later_stage (Caught h e) = False"
| "later_stage (Download c) = False"
| "later_stage (Print_Warning e) = False"
| "later_stage (Load_Data d) = False"
| "later_stage (Print_Loaded n) = False"
| "later_stage (Transform t) = True"
| "later_stage (Print_Transformed n) = True"
| "later_stage (Print_Content s) = True"
| "later_stage (Load_Embedding_Model m) = True"
| "later_stage (Embed_Text m s) = True"
| "later_stage (Print_Test_Embedding v) = True"
| "later_stage (Build_Index m n) = True"
| "later_stage (Synthesize llm chunks q) = True"
| "later_stage (Print_Response r) = True"
| "later_stage (Print_Response_Dict r) = True"

text \<open>The transformations applied in a trace, in the order of their application.\<close>

definition transform_of :: "event \<Rightarrow> transformation option" where
  "transform_of ev = (case ev of Transform t \<Rightarrow> Some t | _ \<Rightarrow> None)"

definition transforms_of :: "event list \<Rightarrow> transformation list" where
  "transforms_of tr = List.map_filter transform_of tr"

text \<open>The calls of the hosted model that answer a query.\<close>

definition is_Synthesize :: "event \<Rightarrow> bool" where
  "is_Synthesize ev = (case ev of Synthesize llm chunks q \<Rightarrow> True | _ \<Rightarrow> False)"

section \<open>Properties of the shaping loop\<close>

lemma shape_doc_embed_keys:
  "''page_label'' \<in> set (excluded_embed_metadata_keys (shape_doc doc))"
  by (simp add: shape_doc_def Let_def)

lemma shape_doc_llm_keys:
  "excluded_llm_metadata_keys (shape_doc doc) = excluded_llm_metadata_keys doc"
  by (simp add: shape_doc_def Let_def)

lemma shape_doc_idem: "shape_doc (shape_doc doc) = shape_doc doc"
  by (simp add: shape_doc_def Let_def)

lemma length_shape_docs: "length (shape_docs docs) = length docs"
  by (induction docs) simp_all

text \<open>
  Claim C1. After the shaping loop, \<open>page_label\<close> should be among the keys hidden
  from the language model, that is in \<open>excluded_llm_metadata_keys\<close>. The loop writes
  the other list: on a PDF page as the reader loads it, the keys hidden from the language
  model are the reader's six keys before and after the loop, \<open>page_label\<close> is none
  of them, and it is \<open>excluded_embed_metadata_keys\<close> that received the key.
\<close>

theorem shape_docs_llm_keys_pdf_page:
  "map excluded_llm_metadata_keys (shape_docs [pdf_page]) = [reader_excluded_keys]
   \<and> ''page_label'' \<notin> set reader_excluded_keys
   \<and> map excluded_embed_metadata_keys (shape_docs [pdf_page])
       = [reader_excluded_keys @ [''page_label'']]"
  by (simp add: shape_doc_def Let_def pdf_page_def reader_excluded_keys_def)

text \<open>
  Claim C2. After the shaping loop there are as many documents as before, and the list
  \<open>excluded_embed_metadata_keys\<close> of every one of them contains \<open>page_label\<close>.
\<close>

theorem shape_docs_excludes_page_label:
  "length (shape_docs docs) = length docs
   \<and> (\<forall>doc \<in> set (shape_docs docs).
         ''page_label'' \<in> set (excluded_embed_metadata_keys doc))"
  by (induction docs) (simp_all add: shape_doc_embed_keys)

theorem shape_docs_excludes_page_label_witness:
  "length (shape_docs [pdf_page, shape_doc pdf_page]) = 2
   \<and> ''page_label'' \<in> set (excluded_embed_metadata_keys
                              (shape_docs [pdf_page, shape_doc pdf_page] ! 0))
   \<and> ''page_label'' \<in> set (excluded_embed_metadata_keys
                              (shape_docs [pdf_page, shape_doc pdf_page] ! 1))"
  using shape_docs_excludes_page_label [of "[pdf_page, shape_doc pdf_page]"] by simp

text \<open>
  Claim C10. The shaping loop is idempotent: run over its own result it changes no
  document, so the membership test keeps \<open>page_label\<close> from being appended twice.
\<close>

theorem shape_docs_idempotent: "shape_docs (shape_docs docs) = shape_docs docs"
  by (induction docs) (simp_all add: shape_doc_idem)

theorem shape_docs_idempotent_witness:
  "shape_docs (shape_docs [pdf_page]) = shape_docs [pdf_page]
   \<and> map excluded_embed_metadata_keys (shape_docs (shape_docs [pdf_page]))
       = [reader_excluded_keys @ [''page_label'']]"
  using shape_docs_idempotent [of "[pdf_page]"]
  by (simp add: shape_doc_def Let_def pdf_page_def reader_excluded_keys_def)

section \<open>Runs and their traces\<close>

lemma bind_run_Inl: "bind_run (tr, Inl e) f = (tr, Inl e)"
  by (simp add: bind_run_def)

lemma fst_bind_run:
  "fst (bind_run m f) = fst m @ (case snd m of Inl e \<Rightarrow> [] | Inr x \<Rightarrow> fst (f x))"
  by (cases m) (simp add: bind_run_def split: sum.splits prod.splits)

lemma snd_bind_run:
  "snd (bind_run m f) = (case snd m of Inl e \<Rightarrow> Inl e | Inr x \<Rightarrow> snd (f x))"
  by (cases m) (simp add: bind_run_def split: sum.splits prod.splits)

subsection \<open>Start-up\<close>

lemma ssl_stage_result:
  "snd (ssl_stage m) =
     Inr (case create_unverified_context m of
            None \<Rightarrow> m
          | Some f \<Rightarrow> m\<lparr>create_default_https_context := f\<rparr>)"
  by (simp add: ssl_stage_def getattr_create_unverified_context_def split: option.splits)

lemma ssl_stage_trace:
  "fst (ssl_stage m) =
     (case create_unverified_context m of
        None \<Rightarrow> [Caught Except_AttributeError (AttributeError ''_create_unverified_context'')]
      | Some f \<Rightarrow> [])"
  by (simp add: ssl_stage_def getattr_create_unverified_context_def split: option.splits)

lemma downloads_raises:
  "(\<exists>e. snd (downloads w cs) = Inl e) \<longleftrightarrow> (\<exists>c \<in> set cs. \<exists>e. nltk_download w c = Inl e)"
  by (induction cs) (auto split: sum.splits prod.splits)

lemma downloads_early: "\<forall>ev \<in> set (fst (downloads w cs)). \<not> later_stage ev"
  by (induction cs) (auto split: sum.splits prod.splits)

lemma downloads_no_caught: "Caught h e \<notin> set (fst (downloads w cs))"
  by (induction cs) (auto split: sum.splits prod.splits)

lemma downloads_no_load: "Load_Data d \<notin> set (fst (downloads w cs))"
  by (induction cs) (auto split: sum.splits prod.splits)

lemma downloads_first_failure:
  "i < length cs \<Longrightarrow> nltk_download w (cs ! i) = Inl e
   \<Longrightarrow> (\<forall>j<i. \<exists>ok. nltk_download w (cs ! j) = Inr ok)
   \<Longrightarrow> downloads w cs = (map Download (take (Suc i) cs), Inl e)"
proof (induction cs arbitrary: i)
  case Nil
  then show ?case by simp
next
  case (Cons c cs)
  show ?case
  proof (cases i)
    case 0
    with Cons.prems show ?thesis by simp
  next
    case (Suc k)
    with Cons.prems have k: "k < length cs" "nltk_download w (cs ! k) = Inl e"
      by simp_all
    from Cons.prems Suc have "\<forall>j<k. \<exists>ok. nltk_download w (cs ! j) = Inr ok"
      by (metis Suc_less_eq nth_Cons_Suc)
    with Cons.IH k have "downloads w cs = (map Download (take (Suc k) cs), Inl e)"
      by blast
    moreover from Cons.prems Suc obtain ok where "nltk_download w c = Inr ok"
      by (metis nth_Cons_0 zero_less_Suc)
    ultimately show ?thesis using Suc by simp
  qed
qed

lemma downloads_failure_index:
  "snd (downloads w cs) = Inl e
   \<Longrightarrow> \<exists>i<length cs. nltk_download w (cs ! i) = Inl e
         \<and> (\<forall>j<i. \<exists>ok. nltk_download w (cs ! j) = Inr ok)
         \<and> fst (downloads w cs) = map Download (take (Suc i) cs)"
proof (induction cs)
  case Nil
  then show ?case by simp
next
  case (Cons c cs)
  show ?case
  proof (cases "nltk_download w c")
    case (Inl e')
    with Cons.prems have "e' = e" by simp
    with Inl have "nltk_download w ((c # cs) ! 0) = Inl e
        \<and> (\<forall>j<0. \<exists>ok. nltk_download w ((c # cs) ! j) = Inr ok)
        \<and> fst (downloads w (c # cs)) = map Download (take (Suc 0) (c # cs))"
      by simp
    then show ?thesis by blast
  next
    case (Inr ok)
    with Cons.prems have "snd (downloads w cs) = Inl e"
      by (auto split: prod.splits)
    with Cons.IH obtain i where i: "i < length cs" "nltk_download w (cs ! i) = Inl e"
        "\<forall>j<i. \<exists>ok. nltk_download w (cs ! j) = Inr ok"
        "fst (downloads w cs) = map Download (take (Suc i) cs)"
      by blast
    have "\<forall>j<Suc i. \<exists>ok. nltk_download w ((c # cs) ! j) = Inr ok"
    proof (intro allI impI)
      fix j assume "j < Suc i"
      then show "\<exists>ok. nltk_download w ((c # cs) ! j) = Inr ok"
        using Inr i(3) by (cases j) auto
    qed
    moreover have "fst (downloads w (c # cs)) = map Download (take (Suc (Suc i)) (c # cs))"
      using Inr i(4) by (auto split: prod.splits)
    ultimately have "Suc i < length (c # cs) \<and> nltk_download w ((c # cs) ! Suc i) = Inl e
        \<and> (\<forall>j<Suc i. \<exists>ok. nltk_download w ((c # cs) ! j) = Inr ok)
        \<and> fst (downloads w (c # cs)) = map Download (take (Suc (Suc i)) (c # cs))"
      using i(1,2) by simp
    then show ?thesis by blast
  qed
qed

lemma downloads_none_fails:
  "(\<forall>c \<in> set cs. \<exists>ok. nltk_download w c = Inr ok)
   \<Longrightarrow> downloads w cs = (map Download cs, Inr ())"
  by (induction cs) auto

lemma nltk_stage_trace:
  "fst (nltk_stage w) = fst (downloads w corpora) @
     (case snd (downloads w corpora) of
        Inl e \<Rightarrow> if is_Exception e then [Caught Except_Exception e, Print_Warning e] else []
      | Inr u \<Rightarrow> [])"
  by (cases "downloads w corpora") (simp add: nltk_stage_def split: sum.splits)

lemma nltk_stage_result:
  "snd (nltk_stage w) =
     (case snd (downloads w corpora) of
        Inl e \<Rightarrow> if is_Exception e then Inr () else Inl e
      | Inr u \<Rightarrow> Inr ())"
  by (cases "downloads w corpora") (simp add: nltk_stage_def split: sum.splits)

lemma load_stage_trace:
  "fst (load_stage w) = Load_Data ''./data'' #
     (case load_data w ''./data'' of Inl e \<Rightarrow> [] | Inr docs \<Rightarrow> [Print_Loaded (length docs)])"
  by (simp add: load_stage_def fst_bind_run call_def emit_def returns_def split: sum.splits)

lemma load_stage_result: "snd (load_stage w) = load_data w ''./data''"
  by (simp add: load_stage_def snd_bind_run call_def emit_def returns_def split: sum.splits)

lemma startup_trace:
  "fst (startup w) = fst (ssl_stage (ssl w)) @ fst (nltk_stage w) @
     (case snd (nltk_stage w) of Inl e \<Rightarrow> [] | Inr u \<Rightarrow> fst (load_stage w))"
  by (simp add: startup_def fst_bind_run ssl_stage_result)

lemma startup_result:
  "snd (startup w) = (case snd (nltk_stage w) of Inl e \<Rightarrow> Inl e | Inr u \<Rightarrow> snd (load_stage w))"
  by (simp add: startup_def snd_bind_run ssl_stage_result)

lemma startup_early: "\<forall>ev \<in> set (fst (startup w)). \<not> later_stage ev"
  using downloads_early [of w corpora]
  by (auto simp: startup_trace ssl_stage_trace nltk_stage_trace load_stage_trace
      split: option.splits sum.splits if_splits)

lemma startup_caught:
  assumes "Caught h e \<in> set (fst (startup w))"
  shows "(h = Except_Exception \<and> is_Exception e \<and> snd (downloads w corpora) = Inl e)
       \<or> (h = Except_AttributeError \<and> e = AttributeError ''_create_unverified_context''
           \<and> create_unverified_context (ssl w) = None)"
  using assms downloads_no_caught [of h e w corpora]
  by (auto simp: startup_trace ssl_stage_trace nltk_stage_trace load_stage_trace
      split: option.splits sum.splits if_splits)

subsection \<open>The ingestion pipeline\<close>

lemma load_dotenv_None:
  "load_dotenv file env k = None \<longleftrightarrow> env k = None \<and> file k = None"
  by (simp add: load_dotenv_def split: option.splits)

lemma run_transformations_pipeline:
  "run_transformations w (ingestion_pipeline llm) docs =
     (case apply_transformation w (SentenceSplitter '' '' 1024 128) docs of
        Inl e \<Rightarrow> ([Transform (SentenceSplitter '' '' 1024 128)], Inl e)
      | Inr chunks \<Rightarrow>
          (case apply_transformation w (TitleExtractor llm 5) chunks of
             Inl e \<Rightarrow> ([Transform (SentenceSplitter '' '' 1024 128),
                        Transform (TitleExtractor llm 5)], Inl e)
           | Inr titled \<Rightarrow>
               ([Transform (SentenceSplitter '' '' 1024 128),
                 Transform (TitleExtractor llm 5),
                 Transform (QuestionsAnsweredExtractor llm 3)],
                apply_transformation w (QuestionsAnsweredExtractor llm 3) titled)))"
  by (simp add: ingestion_pipeline_def text_splitter_def title_extractor_def
      questions_answered_extractor_def split: sum.splits)

lemma run_transformations_later:
  "run_transformations w ts nodes = (tr, r) \<Longrightarrow> ev \<in> set tr \<Longrightarrow> later_stage ev"
proof (induction ts arbitrary: nodes tr r)
  case Nil
  then show ?case by simp
next
  case (Cons t ts)
  show ?case
  proof (cases "apply_transformation w t nodes")
    case (Inl e)
    with Cons.prems show ?thesis by auto
  next
    case (Inr nodes')
    obtain tr' r' where run: "run_transformations w ts nodes' = (tr', r')"
      by (cases "run_transformations w ts nodes'")
    with Cons.prems Inr have "tr = Transform t # tr'" by simp
    with Cons.prems Cons.IH [OF run] show ?thesis by auto
  qed
qed

lemma run_transformations_no_Synthesize:
  "run_transformations w ts nodes = (tr, r) \<Longrightarrow> ev \<in> set tr \<Longrightarrow> \<not> is_Synthesize ev"
proof (induction ts arbitrary: nodes tr r)
  case Nil
  then show ?case by simp
next
  case (Cons t ts)
  show ?case
  proof (cases "apply_transformation w t nodes")
    case (Inl e)
    with Cons.prems show ?thesis by (auto simp: is_Synthesize_def)
  next
    case (Inr nodes')
    obtain tr' r' where run: "run_transformations w ts nodes' = (tr', r')"
      by (cases "run_transformations w ts nodes'")
    with Cons.prems Inr have "tr = Transform t # tr'" by simp
    with Cons.prems Cons.IH [OF run] show ?thesis by (auto simp: is_Synthesize_def)
  qed
qed

lemma ingest_trace:
  "fst (ingest w docs) =
     (case load_dotenv (dotenv_file w) (environ w) ''GROQ_API_KEY'' of
        None \<Rightarrow> []
      | Some k \<Rightarrow>
          (let run = run_transformations w
                 (ingestion_pipeline \<lparr>model = ''llama-3.1-8b-instant'', api_key = k\<rparr>) docs
           in fst run @
              (case snd run of
                 Inl e \<Rightarrow> []
               | Inr nodes \<Rightarrow> Print_Transformed (length nodes) #
                   (case nodes of
                      [] \<Rightarrow> []
                    | n # ns \<Rightarrow> [Print_Content (get_content w EMBED n)]))))"
  by (simp add: ingest_def Let_def Groq_def environ_getitem_def fst_bind_run snd_bind_run
      emit_def returns_def first_node_def split: option.splits sum.splits list.splits)

lemma ingest_result:
  "snd (ingest w docs) =
     (case load_dotenv (dotenv_file w) (environ w) ''GROQ_API_KEY'' of
        None \<Rightarrow> Inl (KeyError ''GROQ_API_KEY'')
      | Some k \<Rightarrow>
          (case snd (run_transformations w
                 (ingestion_pipeline \<lparr>model = ''llama-3.1-8b-instant'', api_key = k\<rparr>) docs) of
             Inl e \<Rightarrow> Inl e
           | Inr nodes \<Rightarrow>
               (case nodes of
                  [] \<Rightarrow> Inl (IndexError ''list index out of range'')
                | n # ns \<Rightarrow> Inr nodes)))"
  by (simp add: ingest_def Let_def Groq_def environ_getitem_def fst_bind_run snd_bind_run
      emit_def returns_def first_node_def split: option.splits sum.splits list.splits)

lemma ingest_absent:
  assumes "load_dotenv (dotenv_file w) (environ w) ''GROQ_API_KEY'' = None"
  shows "ingest w docs = ([], Inl (KeyError ''GROQ_API_KEY''))"
  using assms by (simp add: prod_eq_iff ingest_trace ingest_result)

lemma ingest_events:
  assumes "ev \<in> set (fst (ingest w docs))"
  shows "later_stage ev \<and> \<not> is_Synthesize ev"
proof (cases "load_dotenv (dotenv_file w) (environ w) ''GROQ_API_KEY''")
  case None
  with assms show ?thesis by (simp add: ingest_trace)
next
  case (Some k)
  obtain tr r where run: "run_transformations w
      (ingestion_pipeline \<lparr>model = ''llama-3.1-8b-instant'', api_key = k\<rparr>) docs = (tr, r)"
    by (cases "run_transformations w
      (ingestion_pipeline \<lparr>model = ''llama-3.1-8b-instant'', api_key = k\<rparr>) docs")
  from assms Some run have "ev \<in> set tr \<or> (later_stage ev \<and> \<not> is_Synthesize ev)"
    by (auto simp: ingest_trace is_Synthesize_def split: sum.splits list.splits)
  with run_transformations_later [OF run] run_transformations_no_Synthesize [OF run]
  show ?thesis by blast
qed

subsection \<open>The embedding model, the index, the query\<close>

lemma embedding_stage_events:
  "ev \<in> set (fst (embedding_stage w))
   \<Longrightarrow> later_stage ev \<and> \<not> is_Synthesize ev \<and> transform_of ev = None"
  by (auto simp: embedding_stage_def Let_def fst_bind_run emit_def call_def returns_def
      is_Synthesize_def transform_of_def split: sum.splits)

lemma embed_nodes_events:
  "ev \<in> set (fst (embed_nodes w m nodes))
   \<Longrightarrow> later_stage ev \<and> \<not> is_Synthesize ev \<and> transform_of ev = None"
  by (induction nodes)
     (auto simp: is_Synthesize_def transform_of_def split: sum.splits prod.splits)

lemma VectorStoreIndex_events:
  "ev \<in> set (fst (VectorStoreIndex w nodes m))
   \<Longrightarrow> later_stage ev \<and> \<not> is_Synthesize ev \<and> transform_of ev = None"
  by (auto simp: VectorStoreIndex_def fst_bind_run emit_def returns_def is_Synthesize_def
      transform_of_def dest: embed_nodes_events split: sum.splits)

lemma embed_nodes_entries:
  "snd (embed_nodes w m nodes) = Inr es \<Longrightarrow> map fst es = nodes"
  by (induction nodes arbitrary: es) (auto split: sum.splits prod.splits)

lemma VectorStoreIndex_entries:
  assumes "snd (VectorStoreIndex w nodes m) = Inr idx"
  shows "map fst (entries idx) = nodes \<and> embed_model idx = m"
  using assms
  by (auto simp: VectorStoreIndex_def snd_bind_run emit_def returns_def
      dest: embed_nodes_entries split: sum.splits)

lemma query_run:
  "query w \<lparr>engine_index = idx, engine_llm = llm, similarity_top_k = k\<rparr> q =
     (case get_text_embedding w (embed_model idx) q of
        Inl e \<Rightarrow> ([Embed_Text (embed_model idx) q], Inl e)
      | Inr qv \<Rightarrow>
          (case synthesize w llm (retrieve w k idx qv) q of
             Inl e \<Rightarrow> ([Embed_Text (embed_model idx) q,
                        Synthesize llm (retrieve w k idx qv) q], Inl e)
           | Inr a \<Rightarrow> ([Embed_Text (embed_model idx) q,
                        Synthesize llm (retrieve w k idx qv) q],
                       Inr \<lparr>answer = a, source_nodes = retrieve w k idx qv\<rparr>)))"
  by (simp add: query_def Let_def bind_run_def call_def returns_def split: sum.splits)

lemma query_stage_run:
  assumes "load_dotenv (dotenv_file w) (environ w) ''GROQ_API_KEY'' = Some key"
  shows "query_stage w idx =
     (case query w \<lparr>engine_index = idx,
                    engine_llm = \<lparr>model = ''llama-3.3-70b-versatile'', api_key = key\<rparr>,
                    similarity_top_k = 5\<rparr> the_query of
        (tr, Inl e) \<Rightarrow> (tr, Inl e)
      | (tr, Inr r) \<Rightarrow> (tr @ [Print_Response r, Print_Response_Dict r], Inr r))"
  using assms
  by (simp add: query_stage_def Let_def Groq_def environ_getitem_def as_query_engine_def
      bind_run_def emit_def returns_def split: sum.splits prod.splits)

lemma query_stage_events:
  "ev \<in> set (fst (query_stage w idx)) \<Longrightarrow> later_stage ev \<and> transform_of ev = None"
  by (auto simp: query_stage_def query_def Let_def Groq_def fst_bind_run emit_def call_def
      returns_def transform_of_def split: sum.splits)

lemma query_stage_one_Synthesize:
  "length (filter is_Synthesize (fst (query_stage w idx))) \<le> 1"
  by (simp add: query_stage_def query_def Let_def Groq_def fst_bind_run snd_bind_run emit_def
      call_def returns_def is_Synthesize_def split: sum.splits)

subsection \<open>The script as a whole\<close>

lemma main_trace:
  "fst (main w) = fst (startup w) @
     (case snd (startup w) of
        Inl e \<Rightarrow> []
      | Inr docs \<Rightarrow> fst (ingest w (shape_docs docs)) @
         (case snd (ingest w (shape_docs docs)) of
            Inl e \<Rightarrow> []
          | Inr nodes \<Rightarrow> fst (embedding_stage w) @
             (case snd (embedding_stage w) of
                Inl e \<Rightarrow> []
              | Inr hf \<Rightarrow> fst (VectorStoreIndex w nodes hf) @
                 (case snd (VectorStoreIndex w nodes hf) of
                    Inl e \<Rightarrow> []
                  | Inr idx \<Rightarrow> fst (query_stage w idx)))))"
  by (simp add: main_def fst_bind_run snd_bind_run split: sum.splits)

lemma main_result_Inr:
  assumes "snd (main w) = Inr r"
  obtains docs nodes where
    "snd (startup w) = Inr docs" "snd (ingest w (shape_docs docs)) = Inr nodes"
  using assms by (auto simp: main_def snd_bind_run split: sum.splits)

lemma main_after_startup:
  "ev \<in> set (fst (main w)) \<Longrightarrow> ev \<in> set (fst (startup w)) \<or> later_stage ev"
  by (auto simp: main_trace split: sum.splits
      dest: ingest_events embedding_stage_events VectorStoreIndex_events query_stage_events)

lemma main_absent:
  assumes "load_dotenv (dotenv_file w) (environ w) ''GROQ_API_KEY'' = None"
  shows "main w = (fst (startup w),
            case snd (startup w) of
              Inl e \<Rightarrow> Inl e
            | Inr docs \<Rightarrow> Inl (KeyError ''GROQ_API_KEY''))"
  by (cases "startup w")
     (simp add: main_def bind_run_def ingest_absent [OF assms] split: sum.splits)

lemma main_interrupted:
  assumes "snd (downloads w corpora) = Inl e" "\<not> is_Exception e"
  shows "main w = (fst (ssl_stage (ssl w)) @ fst (downloads w corpora), Inl e)"
proof -
  have "startup w = (fst (ssl_stage (ssl w)) @ fst (downloads w corpora), Inl e)"
    using assms
    by (simp add: prod_eq_iff startup_trace startup_result nltk_stage_trace nltk_stage_result)
  then show ?thesis by (simp add: main_def bind_run_Inl)
qed

lemma startup_loaded: "snd (startup w) = Inr docs \<Longrightarrow> load_data w ''./data'' = Inr docs"
  by (simp add: startup_result load_stage_result split: sum.splits)

lemma ingest_pair:
  assumes "load_dotenv (dotenv_file w) (environ w) ''GROQ_API_KEY'' = Some key"
  shows "ingest w docs =
     (case run_transformations w
             (ingestion_pipeline \<lparr>model = ''llama-3.1-8b-instant'', api_key = key\<rparr>) docs of
        (tr, Inl e) \<Rightarrow> (tr, Inl e)
      | (tr, Inr nodes) \<Rightarrow>
          (case nodes of
             [] \<Rightarrow> (tr @ [Print_Transformed 0], Inl (IndexError ''list index out of range''))
           | n # ns \<Rightarrow> (tr @ [Print_Transformed (length nodes),
                                 Print_Content (get_content w EMBED n)], Inr nodes)))"
  using assms
  by (simp add: ingest_def Let_def Groq_def environ_getitem_def
      bind_run_def emit_def returns_def first_node_def split: sum.splits list.splits prod.splits)

lemma main_ingest_Inl:
  assumes "snd (startup w) = Inr docs" "ingest w (shape_docs docs) = (tr, Inl e)"
  shows "main w = (fst (startup w) @ tr, Inl e)"
  using assms by (cases "startup w") (simp add: main_def bind_run_def)

lemma main_ingest_Inr:
  assumes "snd (startup w) = Inr docs" "ingest w (shape_docs docs) = (tr, Inr nodes)"
  shows "fst (main w) = fst (startup w) @ tr @
           fst (bind_run (embedding_stage w) (\<lambda>hf_embedding.
                bind_run (VectorStoreIndex w nodes hf_embedding) (\<lambda>index.
                query_stage w index)))
       \<and> snd (main w) =
           snd (bind_run (embedding_stage w) (\<lambda>hf_embedding.
                bind_run (VectorStoreIndex w nodes hf_embedding) (\<lambda>index.
                query_stage w index)))"
  using assms by (simp add: main_def fst_bind_run snd_bind_run)

lemma main_pipeline_cases:
  assumes key: "load_dotenv (dotenv_file w) (environ w) ''GROQ_API_KEY'' = Some key"
    and s: "snd (startup w) = Inr docs"
  shows
    "(let llm = \<lparr>model = ''llama-3.1-8b-instant'', api_key = key\<rparr>;
          splitter = SentenceSplitter '' '' 1024 128;
          title = TitleExtractor llm 5;
          questions = QuestionsAnsweredExtractor llm 3
      in (\<forall>e. apply_transformation w splitter (shape_docs docs) = Inl e \<longrightarrow>
            main w = (fst (startup w) @ [Transform splitter], Inl e))
       \<and> (\<forall>chunks e. apply_transformation w splitter (shape_docs docs) = Inr chunks
             \<and> apply_transformation w title chunks = Inl e \<longrightarrow>
            main w = (fst (startup w) @ [Transform splitter, Transform title], Inl e))
       \<and> (\<forall>chunks titled e. apply_transformation w splitter (shape_docs docs) = Inr chunks
             \<and> apply_transformation w title chunks = Inr titled
             \<and> apply_transformation w questions titled = Inl e \<longrightarrow>
            main w = (fst (startup w)
                        @ [Transform splitter, Transform title, Transform questions], Inl e))
       \<and> (\<forall>chunks titled. apply_transformation w splitter (shape_docs docs) = Inr chunks
             \<and> apply_transformation w title chunks = Inr titled
             \<and> apply_transformation w questions titled = Inr [] \<longrightarrow>
            main w = (fst (startup w)
                        @ [Transform splitter, Transform title, Transform questions,
                           Print_Transformed 0],
                      Inl (IndexError ''list index out of range'')))
       \<and> (\<forall>chunks titled n ns. apply_transformation w splitter (shape_docs docs) = Inr chunks
             \<and> apply_transformation w title chunks = Inr titled
             \<and> apply_transformation w questions titled = Inr (n # ns) \<longrightarrow>
            fst (main w) = fst (startup w)
                @ [Transform splitter, Transform title, Transform questions,
                   Print_Transformed (length (n # ns)), Print_Content (get_content w EMBED n)]
                @ fst (bind_run (embedding_stage w) (\<lambda>hf_embedding.
                       bind_run (VectorStoreIndex w (n # ns) hf_embedding) (\<lambda>index.
                       query_stage w index)))
            \<and> snd (main w) =
                snd (bind_run (embedding_stage w) (\<lambda>hf_embedding.
                     bind_run (VectorStoreIndex w (n # ns) hf_embedding) (\<lambda>index.
                     query_stage w index)))))"
  unfolding Let_def
proof (intro conjI allI impI)
  fix e
  assume "apply_transformation w (SentenceSplitter '' '' 1024 128) (shape_docs docs) = Inl e"
  then have "ingest w (shape_docs docs) = ([Transform (SentenceSplitter '' '' 1024 128)], Inl e)"
    by (simp add: ingest_pair [OF key] run_transformations_pipeline)
  from main_ingest_Inl [OF s this]
  show "main w = (fst (startup w) @ [Transform (SentenceSplitter '' '' 1024 128)], Inl e)" .
next
  fix chunks e
  assume "apply_transformation w (SentenceSplitter '' '' 1024 128) (shape_docs docs) = Inr chunks
    \<and> apply_transformation w
         (TitleExtractor \<lparr>model = ''llama-3.1-8b-instant'', api_key = key\<rparr> 5) chunks = Inl e"
  then have "ingest w (shape_docs docs) =
      ([Transform (SentenceSplitter '' '' 1024 128),
        Transform (TitleExtractor \<lparr>model = ''llama-3.1-8b-instant'', api_key = key\<rparr> 5)], Inl e)"
    by (simp add: ingest_pair [OF key] run_transformations_pipeline)
  from main_ingest_Inl [OF s this]
  show "main w = (fst (startup w) @
      [Transform (SentenceSplitter '' '' 1024 128),
       Transform (TitleExtractor \<lparr>model = ''llama-3.1-8b-instant'', api_key = key\<rparr> 5)], Inl e)" .
next
  fix chunks titled e
  assume "apply_transformation w (SentenceSplitter '' '' 1024 128) (shape_docs docs) = Inr chunks
    \<and> apply_transformation w
         (TitleExtractor \<lparr>model = ''llama-3.1-8b-instant'', api_key = key\<rparr> 5) chunks = Inr titled
    \<and> apply_transformation w
         (QuestionsAnsweredExtractor \<lparr>model = ''llama-3.1-8b-instant'', api_key = key\<rparr> 3) titled
       = Inl e"
  then have "ingest w (shape_docs docs) =
      ([Transform (SentenceSplitter '' '' 1024 128),
        Transform (TitleExtractor \<lparr>model = ''llama-3.1-8b-instant'', api_key = key\<rparr> 5),
        Transform (QuestionsAnsweredExtractor
                     \<lparr>model = ''llama-3.1-8b-instant'', api_key = key\<rparr> 3)], Inl e)"
    by (simp add: ingest_pair [OF key] run_transformations_pipeline)
  from main_ingest_Inl [OF s this]
  show "main w = (fst (startup w) @
      [Transform (SentenceSplitter '' '' 1024 128),
       Transform (TitleExtractor \<lparr>model = ''llama-3.1-8b-instant'', api_key = key\<rparr> 5),
       Transform (QuestionsAnsweredExtractor
                    \<lparr>model = ''llama-3.1-8b-instant'', api_key = key\<rparr> 3)], Inl e)" .
next
  fix chunks titled
  assume "apply_transformation w (SentenceSplitter '' '' 1024 128) (shape_docs docs) = Inr chunks
    \<and> apply_transformation w
         (TitleExtractor \<lparr>model = ''llama-3.1-8b-instant'', api_key = key\<rparr> 5) chunks = Inr titled
    \<and> apply_transformation w
         (QuestionsAnsweredExtractor \<lparr>model = ''llama-3.1-8b-instant'', api_key = key\<rparr> 3) titled
       = Inr []"
  then have "ingest w (shape_docs docs) =
      ([Transform (SentenceSplitter '' '' 1024 128),
        Transform (TitleExtractor \<lparr>model = ''llama-3.1-8b-instant'', api_key = key\<rparr> 5),
        Transform (QuestionsAnsweredExtractor
                     \<lparr>model = ''llama-3.1-8b-instant'', api_key = key\<rparr> 3),
        Print_Transformed 0], Inl (IndexError ''list index out of range''))"
    by (simp add: ingest_pair [OF key] run_transformations_pipeline)
  from main_ingest_Inl [OF s this]
  show "main w = (fst (startup w) @
      [Transform (SentenceSplitter '' '' 1024 128),
       Transform (TitleExtractor \<lparr>model = ''llama-3.1-8b-instant'', api_key = key\<rparr> 5),
       Transform (QuestionsAnsweredExtractor
                    \<lparr>model = ''llama-3.1-8b-instant'', api_key = key\<rparr> 3),
       Print_Transformed 0], Inl (IndexError ''list index out of range''))" .
next
  fix chunks titled n ns
  assume "apply_transformation w (SentenceSplitter '' '' 1024 128) (shape_docs docs) = Inr chunks
    \<and> apply_transformation w
         (TitleExtractor \<lparr>model = ''llama-3.1-8b-instant'', api_key = key\<rparr> 5) chunks = Inr titled
    \<and> apply_transformation w
         (QuestionsAnsweredExtractor \<lparr>model = ''llama-3.1-8b-instant'', api_key = key\<rparr> 3) titled
       = Inr (n # ns)"
  then have i: "ingest w (shape_docs docs) =
      ([Transform (SentenceSplitter '' '' 1024 128),
        Transform (TitleExtractor \<lparr>model = ''llama-3.1-8b-instant'', api_key = key\<rparr> 5),
        Transform (QuestionsAnsweredExtractor
                     \<lparr>model = ''llama-3.1-8b-instant'', api_key = key\<rparr> 3),
        Print_Transformed (length (n # ns)), Print_Content (get_content w EMBED n)],
       Inr (n # ns))"
    by (simp add: ingest_pair [OF key] run_transformations_pipeline)
  from main_ingest_Inr [OF s i]
  show "fst (main w) = fst (startup w)
      @ [Transform (SentenceSplitter '' '' 1024 128),
         Transform (TitleExtractor \<lparr>model = ''llama-3.1-8b-instant'', api_key = key\<rparr> 5),
         Transform (QuestionsAnsweredExtractor
                      \<lparr>model = ''llama-3.1-8b-instant'', api_key = key\<rparr> 3),
         Print_Transformed (length (n # ns)), Print_Content (get_content w EMBED n)]
      @ fst (bind_run (embedding_stage w) (\<lambda>hf_embedding.
             bind_run (VectorStoreIndex w (n # ns) hf_embedding) (\<lambda>index.
             query_stage w index)))"
    by simp
  from main_ingest_Inr [OF s i]
  show "snd (main w) =
      snd (bind_run (embedding_stage w) (\<lambda>hf_embedding.
           bind_run (VectorStoreIndex w (n # ns) hf_embedding) (\<lambda>index.
           query_stage w index)))"
    by simp
qed

subsection \<open>Transformations and queries in a trace\<close>

lemma transforms_of_simps:
  "transforms_of [] = []"
  "transforms_of (Transform t # tr) = t # transforms_of tr"
  "transform_of ev = None \<Longrightarrow> transforms_of (ev # tr) = transforms_of tr"
  "transforms_of (tr @ tr') = transforms_of tr @ transforms_of tr'"
  by (simp_all add: transforms_of_def transform_of_def List.map_filter_def)

lemma transforms_of_none:
  "(\<And>ev. ev \<in> set tr \<Longrightarrow> transform_of ev = None) \<Longrightarrow> transforms_of tr = []"
  by (induction tr) (simp_all add: transforms_of_simps)

lemma not_later_no_transform: "\<not> later_stage ev \<Longrightarrow> transform_of ev = None"
  by (cases ev) (simp_all add: transform_of_def)

lemma not_later_no_Synthesize: "\<not> later_stage ev \<Longrightarrow> \<not> is_Synthesize ev"
  by (cases ev) (simp_all add: is_Synthesize_def)

lemma filter_Synthesize_none:
  "(\<And>ev. ev \<in> set tr \<Longrightarrow> \<not> is_Synthesize ev) \<Longrightarrow> filter is_Synthesize tr = []"
  by (induction tr) simp_all

lemma transforms_of_startup: "transforms_of (fst (startup w)) = []"
  using startup_early [of w] by (intro transforms_of_none not_later_no_transform) blast

lemma transforms_of_ingest:
  "transforms_of (fst (ingest w docs)) =
     (case load_dotenv (dotenv_file w) (environ w) ''GROQ_API_KEY'' of
        None \<Rightarrow> []
      | Some k \<Rightarrow> transforms_of (fst (run_transformations w
                 (ingestion_pipeline \<lparr>model = ''llama-3.1-8b-instant'', api_key = k\<rparr>) docs)))"
  by (simp add: ingest_trace Let_def transforms_of_simps transform_of_def
      split: option.splits sum.splits list.splits)

lemma transforms_of_main:
  "transforms_of (fst (main w)) =
     (case snd (startup w) of
        Inl e \<Rightarrow> []
      | Inr docs \<Rightarrow> transforms_of (fst (ingest w (shape_docs docs))))"
proof -
  have "transforms_of (fst (embedding_stage w)) = []"
    by (rule transforms_of_none) (simp add: embedding_stage_events)
  moreover have "transforms_of (fst (VectorStoreIndex w nodes m)) = []" for nodes m
    by (rule transforms_of_none) (simp add: VectorStoreIndex_events)
  moreover have "transforms_of (fst (query_stage w idx)) = []" for idx
    by (rule transforms_of_none) (simp add: query_stage_events)
  ultimately show ?thesis
    by (simp add: main_trace transforms_of_simps transforms_of_startup split: sum.splits)
qed

lemma main_one_Synthesize: "length (filter is_Synthesize (fst (main w))) \<le> 1"
proof -
  have "filter is_Synthesize (fst (startup w)) = []"
    using startup_early [of w] by (intro filter_Synthesize_none not_later_no_Synthesize) blast
  moreover have "filter is_Synthesize (fst (ingest w docs)) = []" for docs
    by (rule filter_Synthesize_none) (simp add: ingest_events)
  moreover have "filter is_Synthesize (fst (embedding_stage w)) = []"
    by (rule filter_Synthesize_none) (simp add: embedding_stage_events)
  moreover have "filter is_Synthesize (fst (VectorStoreIndex w nodes m)) = []" for nodes m
    by (rule filter_Synthesize_none) (simp add: VectorStoreIndex_events)
  ultimately show ?thesis
    using query_stage_one_Synthesize by (simp add: main_trace split: sum.splits)
qed

subsection \<open>Retrieval\<close>

lemma ranked_sorted: "sorted (map (\<lambda>(n, v). - similarity w qv v) (ranked w idx qv))"
  by (simp add: ranked_def)

lemma ranked_mset: "mset (ranked w idx qv) = mset (entries idx)"
  by (simp add: ranked_def)

lemma length_retrieve: "length (retrieve w k idx qv) = min k (length (entries idx))"
  by (simp add: retrieve_def ranked_def min.commute)

lemma ranked_split:
  "mset (take k (ranked w idx qv)) + mset (drop k (ranked w idx qv)) = mset (entries idx)"
proof -
  have "mset (take k (ranked w idx qv) @ drop k (ranked w idx qv)) = mset (entries idx)"
    by (simp only: append_take_drop_id ranked_mset)
  then show ?thesis by (simp only: mset_append)
qed

lemma ranked_dominates:
  assumes "x \<in> set (take k (ranked w idx qv))" "y \<in> set (drop k (ranked w idx qv))"
  shows "similarity w qv (snd y) \<le> similarity w qv (snd x)"
proof -
  let ?f = "\<lambda>(n, v). - similarity w qv v"
  have "sorted (map ?f (take k (ranked w idx qv) @ drop k (ranked w idx qv)))"
    by (simp only: append_take_drop_id ranked_sorted)
  then have "\<forall>a \<in> set (take k (ranked w idx qv)).
               \<forall>b \<in> set (drop k (ranked w idx qv)). ?f a \<le> ?f b"
    by (simp only: map_append sorted_append set_map) blast
  with assms have "?f x \<le> ?f y" by blast
  then show ?thesis by (simp add: case_prod_beta)
qed

section \<open>The ingestion pipeline applies three transformations in order\<close>

text \<open>
  Claim C5. The ingestion pipeline has exactly three transformations: the splitter with
  chunks of 1024 tokens that overlap by 128, then the title extractor, then the
  questions-answered extractor, both on the same hosted model. A run of the pipeline
  gives the splitter the documents, the title extractor the chunks, the questions
  extractor the titled chunks. In a run of the script every transformation applied is
  one of these, in this order, on the client of model \<open>llama-3.1-8b-instant\<close>: the
  transformations of a trace are a prefix of the three, and all three when the script
  runs to its end.

  The script applies them to the documents it loaded. With the API key set and start-up
  ended with the documents \<open>docs\<close> (these are what the loader returned), the splitter
  is called on the shaped \<open>docs\<close>, the title extractor on what the splitter returned,
  the questions extractor on what the title extractor returned. An exception of any of
  the three ends the script right after that call, with that exception; an empty result
  ends it at \<open>nodes[0]\<close>; otherwise the nodes the last one returned are counted,
  the first is printed, and the rest of the script (embedding model, index, query) runs
  on exactly these nodes.
\<close>

theorem ingestion_pipeline_three_in_order:
  "ingestion_pipeline llm =
     [SentenceSplitter '' '' 1024 128, TitleExtractor llm 5, QuestionsAnsweredExtractor llm 3]
   \<and> length (ingestion_pipeline llm) = 3
   \<and> snd (run_transformations w (ingestion_pipeline llm) docs) =
       (case apply_transformation w (SentenceSplitter '' '' 1024 128) docs of
          Inl e \<Rightarrow> Inl e
        | Inr chunks \<Rightarrow>
            (case apply_transformation w (TitleExtractor llm 5) chunks of
               Inl e \<Rightarrow> Inl e
             | Inr titled \<Rightarrow> apply_transformation w (QuestionsAnsweredExtractor llm 3) titled))
   \<and> (\<forall>key. load_dotenv (dotenv_file w) (environ w) ''GROQ_API_KEY'' = Some key \<longrightarrow>
         prefix (transforms_of (fst (main w)))
           (ingestion_pipeline \<lparr>model = ''llama-3.1-8b-instant'', api_key = key\<rparr>))
   \<and> (\<forall>key r. load_dotenv (dotenv_file w) (environ w) ''GROQ_API_KEY'' = Some key
          \<and> snd (main w) = Inr r \<longrightarrow>
         transforms_of (fst (main w))
           = ingestion_pipeline \<lparr>model = ''llama-3.1-8b-instant'', api_key = key\<rparr>)
   \<and> (\<forall>key loaded. load_dotenv (dotenv_file w) (environ w) ''GROQ_API_KEY'' = Some key
          \<and> snd (startup w) = Inr loaded \<longrightarrow>
         load_data w ''./data'' = Inr loaded
         \<and> (let llm = \<lparr>model = ''llama-3.1-8b-instant'', api_key = key\<rparr>;
                 splitter = SentenceSplitter '' '' 1024 128;
                 title = TitleExtractor llm 5;
                 questions = QuestionsAnsweredExtractor llm 3
             in (\<forall>e. apply_transformation w splitter (shape_docs loaded) = Inl e \<longrightarrow>
                   main w = (fst (startup w) @ [Transform splitter], Inl e))
              \<and> (\<forall>chunks e.
                    apply_transformation w splitter (shape_docs loaded) = Inr chunks
                    \<and> apply_transformation w title chunks = Inl e \<longrightarrow>
                   main w = (fst (startup w) @ [Transform splitter, Transform title], Inl e))
              \<and> (\<forall>chunks titled e.
                    apply_transformation w splitter (shape_docs loaded) = Inr chunks
                    \<and> apply_transformation w title chunks = Inr titled
                    \<and> apply_transformation w questions titled = Inl e \<longrightarrow>
                   main w = (fst (startup w)
                               @ [Transform splitter, Transform title, Transform questions],
                             Inl e))
              \<and> (\<forall>chunks titled.
                    apply_transformation w splitter (shape_docs loaded) = Inr chunks
                    \<and> apply_transformation w title chunks = Inr titled
                    \<and> apply_transformation w questions titled = Inr [] \<longrightarrow>
                   main w = (fst (startup w)
                               @ [Transform splitter, Transform title, Transform questions,
                                  Print_Transformed 0],
                             Inl (IndexError ''list index out of range'')))
              \<and> (\<forall>chunks titled n ns.
                    apply_transformation w splitter (shape_docs loaded) = Inr chunks
                    \<and> apply_transformation w title chunks = Inr titled
                    \<and> apply_transformation w questions titled = Inr (n # ns) \<longrightarrow>
                   fst (main w) = fst (startup w)
                       @ [Transform splitter, Transform title, Transform questions,
                          Print_Transformed (length (n # ns)),
                          Print_Content (get_content w EMBED n)]
                       @ fst (bind_run (embedding_stage w) (\<lambda>hf_embedding.
                              bind_run (VectorStoreIndex w (n # ns) hf_embedding) (\<lambda>index.
                              query_stage w index)))
                   \<and> snd (main w) =
                       snd (bind_run (embedding_stage w) (\<lambda>hf_embedding.
                            bind_run (VectorStoreIndex w (n # ns) hf_embedding) (\<lambda>index.
                            query_stage w index))))))"
proof -
  have o1: "ingestion_pipeline llm =
     [SentenceSplitter '' '' 1024 128, TitleExtractor llm 5, QuestionsAnsweredExtractor llm 3]"
    by (simp add: ingestion_pipeline_def text_splitter_def title_extractor_def
        questions_answered_extractor_def)
  then have o2: "length (ingestion_pipeline llm) = 3" by simp
  have o3: "snd (run_transformations w (ingestion_pipeline llm) docs) =
       (case apply_transformation w (SentenceSplitter '' '' 1024 128) docs of
          Inl e \<Rightarrow> Inl e
        | Inr chunks \<Rightarrow>
            (case apply_transformation w (TitleExtractor llm 5) chunks of
               Inl e \<Rightarrow> Inl e
             | Inr titled \<Rightarrow> apply_transformation w (QuestionsAnsweredExtractor llm 3) titled))"
    by (simp add: run_transformations_pipeline split: sum.splits)
  have o4: "\<forall>key. load_dotenv (dotenv_file w) (environ w) ''GROQ_API_KEY'' = Some key \<longrightarrow>
         prefix (transforms_of (fst (main w)))
           (ingestion_pipeline \<lparr>model = ''llama-3.1-8b-instant'', api_key = key\<rparr>)"
  proof (intro allI impI)
    fix key assume "load_dotenv (dotenv_file w) (environ w) ''GROQ_API_KEY'' = Some key"
    then show "prefix (transforms_of (fst (main w)))
           (ingestion_pipeline \<lparr>model = ''llama-3.1-8b-instant'', api_key = key\<rparr>)"
      by (simp add: transforms_of_main transforms_of_ingest run_transformations_pipeline
          transforms_of_simps ingestion_pipeline_def text_splitter_def title_extractor_def
          questions_answered_extractor_def split: sum.splits)
  qed
  have o5: "\<forall>key r. load_dotenv (dotenv_file w) (environ w) ''GROQ_API_KEY'' = Some key
          \<and> snd (main w) = Inr r \<longrightarrow>
         transforms_of (fst (main w))
           = ingestion_pipeline \<lparr>model = ''llama-3.1-8b-instant'', api_key = key\<rparr>"
  proof (intro allI impI)
    fix key r
    assume a: "load_dotenv (dotenv_file w) (environ w) ''GROQ_API_KEY'' = Some key
      \<and> snd (main w) = Inr r"
    then obtain loaded nodes where s: "snd (startup w) = Inr loaded"
        and i: "snd (ingest w (shape_docs loaded)) = Inr nodes"
      by (auto elim: main_result_Inr)
    from a i s show "transforms_of (fst (main w))
           = ingestion_pipeline \<lparr>model = ''llama-3.1-8b-instant'', api_key = key\<rparr>"
      by (auto simp: transforms_of_main transforms_of_ingest ingest_result
          run_transformations_pipeline transforms_of_simps ingestion_pipeline_def
          text_splitter_def title_extractor_def questions_answered_extractor_def
          split: sum.splits)
  qed
  have o6: "\<forall>key loaded. load_dotenv (dotenv_file w) (environ w) ''GROQ_API_KEY'' = Some key
          \<and> snd (startup w) = Inr loaded \<longrightarrow>
         load_data w ''./data'' = Inr loaded
         \<and> (let llm = \<lparr>model = ''llama-3.1-8b-instant'', api_key = key\<rparr>;
                 splitter = SentenceSplitter '' '' 1024 128;
                 title = TitleExtractor llm 5;
                 questions = QuestionsAnsweredExtractor llm 3
             in (\<forall>e. apply_transformation w splitter (shape_docs loaded) = Inl e \<longrightarrow>
                   main w = (fst (startup w) @ [Transform splitter], Inl e))
              \<and> (\<forall>chunks e.
                    apply_transformation w splitter (shape_docs loaded) = Inr chunks
                    \<and> apply_transformation w title chunks = Inl e \<longrightarrow>
                   main w = (fst (startup w) @ [Transform splitter, Transform title], Inl e))
              \<and> (\<forall>chunks titled e.
                    apply_transformation w splitter (shape_docs loaded) = Inr chunks
                    \<and> apply_transformation w title chunks = Inr titled
                    \<and> apply_transformation w questions titled = Inl e \<longrightarrow>
                   main w = (fst (startup w)
                               @ [Transform splitter, Transform title, Transform questions],
                             Inl e))
              \<and> (\<forall>chunks titled.
                    apply_transformation w splitter (shape_docs loaded) = Inr chunks
                    \<and> apply_transformation w title chunks = Inr titled
                    \<and> apply_transformation w questions titled = Inr [] \<longrightarrow>
                   main w = (fst (startup w)
                               @ [Transform splitter, Transform title, Transform questions,
                                  Print_Transformed 0],
                             Inl (IndexError ''list index out of range'')))
              \<and> (\<forall>chunks titled n ns.
                    apply_transformation w splitter (shape_docs loaded) = Inr chunks
                    \<and> apply_transformation w title chunks = Inr titled
                    \<and> apply_transformation w questions titled = Inr (n # ns) \<longrightarrow>
                   fst (main w) = fst (startup w)
                       @ [Transform splitter, Transform title, Transform questions,
                          Print_Transformed (length (n # ns)),
                          Print_Content (get_content w EMBED n)]
                       @ fst (bind_run (embedding_stage w) (\<lambda>hf_embedding.
                              bind_run (VectorStoreIndex w (n # ns) hf_embedding) (\<lambda>index.
                              query_stage w index)))
                   \<and> snd (main w) =
                       snd (bind_run (embedding_stage w) (\<lambda>hf_embedding.
                            bind_run (VectorStoreIndex w (n # ns) hf_embedding) (\<lambda>index.
                            query_stage w index)))))"
  proof (intro allI impI)
    fix key loaded
    assume a: "load_dotenv (dotenv_file w) (environ w) ''GROQ_API_KEY'' = Some key
      \<and> snd (startup w) = Inr loaded"
    then have k: "load_dotenv (dotenv_file w) (environ w) ''GROQ_API_KEY'' = Some key"
      and s: "snd (startup w) = Inr loaded"
      by simp_all
    from startup_loaded [OF s] main_pipeline_cases [OF k s]
    show "load_data w ''./data'' = Inr loaded
         \<and> (let llm = \<lparr>model = ''llama-3.1-8b-instant'', api_key = key\<rparr>;
                 splitter = SentenceSplitter '' '' 1024 128;
                 title = TitleExtractor llm 5;
                 questions = QuestionsAnsweredExtractor llm 3
             in (\<forall>e. apply_transformation w splitter (shape_docs loaded) = Inl e \<longrightarrow>
                   main w = (fst (startup w) @ [Transform splitter], Inl e))
              \<and> (\<forall>chunks e.
                    apply_transformation w splitter (shape_docs loaded) = Inr chunks
                    \<and> apply_transformation w title chunks = Inl e \<longrightarrow>
                   main w = (fst (startup w) @ [Transform splitter, Transform title], Inl e))
              \<and> (\<forall>chunks titled e.
                    apply_transformation w splitter (shape_docs loaded) = Inr chunks
                    \<and> apply_transformation w title chunks = Inr titled
                    \<and> apply_transformation w questions titled = Inl e \<longrightarrow>
                   main w = (fst (startup w)
                               @ [Transform splitter, Transform title, Transform questions],
                             Inl e))
              \<and> (\<forall>chunks titled.
                    apply_transformation w splitter (shape_docs loaded) = Inr chunks
                    \<and> apply_transformation w title chunks = Inr titled
                    \<and> apply_transformation w questions titled = Inr [] \<longrightarrow>
                   main w = (fst (startup w)
                               @ [Transform splitter, Transform title, Transform questions,
                                  Print_Transformed 0],
                             Inl (IndexError ''list index out of range'')))
              \<and> (\<forall>chunks titled n ns.
                    apply_transformation w splitter (shape_docs loaded) = Inr chunks
                    \<and> apply_transformation w title chunks = Inr titled
                    \<and> apply_transformation w questions titled = Inr (n # ns) \<longrightarrow>
                   fst (main w) = fst (startup w)
                       @ [Transform splitter, Transform title, Transform questions,
                          Print_Transformed (length (n # ns)),
                          Print_Content (get_content w EMBED n)]
                       @ fst (bind_run (embedding_stage w) (\<lambda>hf_embedding.
                              bind_run (VectorStoreIndex w (n # ns) hf_embedding) (\<lambda>index.
                              query_stage w index)))
                   \<and> snd (main w) =
                       snd (bind_run (embedding_stage w) (\<lambda>hf_embedding.
                            bind_run (VectorStoreIndex w (n # ns) hf_embedding) (\<lambda>index.
                            query_stage w index)))))"
      by (rule conjI)
  qed
  show ?thesis
    by (intro conjI; (rule o1 o2 o3 o4 o5 o6))
qed

theorem ingestion_pipeline_three_in_order_witness:
  "load_dotenv (dotenv_file sample_world) (environ sample_world) ''GROQ_API_KEY''
     = Some ''gsk_test''
   \<and> transforms_of (fst (main sample_world)) =
       [SentenceSplitter '' '' 1024 128,
        TitleExtractor \<lparr>model = ''llama-3.1-8b-instant'', api_key = ''gsk_test''\<rparr> 5,
        QuestionsAnsweredExtractor \<lparr>model = ''llama-3.1-8b-instant'', api_key = ''gsk_test''\<rparr> 3]
   \<and> load_data world_splitter_fails ''./data'' = Inr [pdf_page]
   \<and> apply_transformation world_splitter_fails (SentenceSplitter '' '' 1024 128)
        (shape_docs [pdf_page])
     = Inl (OtherException ''Metadata length is longer than chunk size'')
   \<and> main world_splitter_fails =
       ([Download ''stopwords'', Download ''punkt'', Download ''punkt_tab'',
         Load_Data ''./data'', Print_Loaded 1, Transform (SentenceSplitter '' '' 1024 128)],
        Inl (OtherException ''Metadata length is longer than chunk size''))"
proof -
  let ?llm = "\<lparr>model = ''llama-3.1-8b-instant'', api_key = ''gsk_test''\<rparr>"
  have k: "load_dotenv (dotenv_file sample_world) (environ sample_world) ''GROQ_API_KEY''
      = Some ''gsk_test''"
    by (simp add: load_dotenv_def sample_world_def)
  have r: "snd (main sample_world) =
      Inr \<lparr>answer = ''It is about attention.'',
           source_nodes = source_nodes (projr (snd (main sample_world)))\<rparr>"
    by code_simp
  have all: "\<forall>key r.
      load_dotenv (dotenv_file sample_world) (environ sample_world) ''GROQ_API_KEY'' = Some key
      \<and> snd (main sample_world) = Inr r \<longrightarrow>
      transforms_of (fst (main sample_world))
        = ingestion_pipeline \<lparr>model = ''llama-3.1-8b-instant'', api_key = key\<rparr>"
    using ingestion_pipeline_three_in_order [of ?llm sample_world "[]"] by (elim conjE)
  from all k r have "transforms_of (fst (main sample_world)) = ingestion_pipeline ?llm"
    by blast
  then have t: "transforms_of (fst (main sample_world)) =
       [SentenceSplitter '' '' 1024 128, TitleExtractor ?llm 5,
        QuestionsAnsweredExtractor ?llm 3]"
    by (simp add: ingestion_pipeline_def text_splitter_def title_extractor_def
        questions_answered_extractor_def)
  have k': "load_dotenv (dotenv_file world_splitter_fails) (environ world_splitter_fails)
      ''GROQ_API_KEY'' = Some ''gsk_test''"
    by (simp add: load_dotenv_def world_splitter_fails_def sample_world_def)
  have s: "startup world_splitter_fails =
      ([Download ''stopwords'', Download ''punkt'', Download ''punkt_tab'',
        Load_Data ''./data'', Print_Loaded 1], Inr [pdf_page])"
    by code_simp
  have a: "apply_transformation world_splitter_fails (SentenceSplitter '' '' 1024 128)
        (shape_docs [pdf_page])
     = Inl (OtherException ''Metadata length is longer than chunk size'')"
    by (simp add: world_splitter_fails_def)
  have "load_data world_splitter_fails ''./data'' = Inr [pdf_page]
      \<and> (\<forall>e. apply_transformation world_splitter_fails (SentenceSplitter '' '' 1024 128)
               (shape_docs [pdf_page]) = Inl e \<longrightarrow>
            main world_splitter_fails =
              (fst (startup world_splitter_fails)
                 @ [Transform (SentenceSplitter '' '' 1024 128)], Inl e))"
    using ingestion_pipeline_three_in_order [of ?llm world_splitter_fails "[]"] k' s
    unfolding Let_def by (elim conjE) simp
  with a s have "load_data world_splitter_fails ''./data'' = Inr [pdf_page]
      \<and> main world_splitter_fails =
       ([Download ''stopwords'', Download ''punkt'', Download ''punkt_tab'',
         Load_Data ''./data'', Print_Loaded 1, Transform (SentenceSplitter '' '' 1024 128)],
        Inl (OtherException ''Metadata length is longer than chunk size''))"
    by simp
  with k t a show ?thesis by simp
qed

section \<open>A missing API key\<close>

text \<open>
  Claim C6. When the variable \<open>GROQ_API_KEY\<close> is absent at the lookup of line 98
  (set neither in the environment nor by the \<open>.env\<close> file that \<open>load_dotenv\<close>
  reads), the script fails: its run ends with an exception that nothing handles. When
  start-up and loading have succeeded that exception is the \<open>KeyError\<close> of the
  lookup, and the run is then the run of lines 5 to 28 and nothing more. In every case
  no event of a later stage (pipeline, embedding, index, query) takes place.
\<close>

theorem missing_api_key_fails:
  assumes "environ w ''GROQ_API_KEY'' = None" and "dotenv_file w ''GROQ_API_KEY'' = None"
  shows "(\<exists>e. snd (main w) = Inl e)
    \<and> (\<forall>docs. snd (startup w) = Inr docs \<longrightarrow>
          main w = (fst (startup w), Inl (KeyError ''GROQ_API_KEY'')))
    \<and> (\<forall>ev \<in> set (fst (main w)). \<not> later_stage ev)"
proof -
  from assms have "load_dotenv (dotenv_file w) (environ w) ''GROQ_API_KEY'' = None"
    by (simp add: load_dotenv_None)
  then have "main w = (fst (startup w),
            case snd (startup w) of
              Inl e \<Rightarrow> Inl e
            | Inr docs \<Rightarrow> Inl (KeyError ''GROQ_API_KEY''))"
    by (rule main_absent)
  with startup_early [of w] show ?thesis by (simp split: sum.splits)
qed

theorem missing_api_key_fails_witness:
  "environ world_without_key ''GROQ_API_KEY'' = None
   \<and> dotenv_file world_without_key ''GROQ_API_KEY'' = None
   \<and> main world_without_key =
       ([Download ''stopwords'', Download ''punkt'', Download ''punkt_tab'',
         Load_Data ''./data'', Print_Loaded 1],
        Inl (KeyError ''GROQ_API_KEY''))"
proof -
  have e: "environ world_without_key ''GROQ_API_KEY'' = None"
    by (simp add: world_without_key_def)
  have d: "dotenv_file world_without_key ''GROQ_API_KEY'' = None"
    by (simp add: world_without_key_def sample_world_def)
  have s: "startup world_without_key =
      ([Download ''stopwords'', Download ''punkt'', Download ''punkt_tab'',
        Load_Data ''./data'', Print_Loaded 1], Inr [pdf_page])"
    by code_simp
  from missing_api_key_fails [OF e d] s e d show ?thesis by simp
qed

section \<open>The errors the script catches\<close>

text \<open>
  Claim C7, as stated: a failed corpus download is caught, a warning is printed and
  loading follows, and this is the only error the script catches. It does not hold as
  stated. Where the \<open>ssl\<close> module has no \<open>_create_unverified_context\<close>, the script
  catches the \<open>AttributeError\<close> of lines 8 to 11 although every download succeeds;
  and a download that raises \<open>KeyboardInterrupt\<close> is not caught: the run ends there,
  before any document is loaded.
\<close>

theorem only_caught_path_counterexample:
  "fst (main world_without_ssl_attribute) ! 0
     = Caught Except_AttributeError (AttributeError ''_create_unverified_context'')
   \<and> downloads world_without_ssl_attribute corpora
     = ([Download ''stopwords'', Download ''punkt'', Download ''punkt_tab''], Inr ())
   \<and> nltk_download world_interrupted ''punkt'' = Inl KeyboardInterrupt
   \<and> main world_interrupted
     = ([Download ''stopwords'', Download ''punkt''], Inl KeyboardInterrupt)"
  by code_simp

text \<open>
  Claim C7, amended. When the first download that raises (of \<open>stopwords\<close>,
  \<open>punkt\<close>, \<open>punkt_tab\<close>, in this order) raises an instance of \<open>Exception\<close>,
  the exception is caught, the warning is printed, and the loader runs next; when it
  raises anything else, the script ends with that exception and loads nothing. Every
  exception the script catches is either such a download failure or the
  \<open>AttributeError\<close> of a missing \<open>ssl._create_unverified_context\<close>. Some download
  raises in the run exactly when one of the three corpora has a download that raises.

  The downloads after the failed one are skipped. Let the download of the corpus at
  position \<open>i\<close> raise \<open>e\<close> and the downloads before it succeed. Then the downloads
  that run are those of the corpora up to position \<open>i\<close> and no other. When \<open>e\<close> is
  an \<open>Exception\<close>, start-up is: what lines 8 to 13 did, these downloads, the caught
  exception and the warning, then the loader, whose outcome is the outcome of start-up.
  When it is not, the whole run is what lines 8 to 13 did and these downloads, ended by
  \<open>e\<close>. Whenever some download raises there is such a first position; when none
  raises, all three corpora are downloaded. Lines 8 to 13 leave a trace only when the
  attribute is missing; the loader's trace is the call and, when it returns, the count.
\<close>

theorem download_failure_caught:
  "(\<forall>e. snd (downloads w corpora) = Inl e \<and> is_Exception e \<longrightarrow>
       fst (startup w) = fst (ssl_stage (ssl w)) @ fst (downloads w corpora)
          @ [Caught Except_Exception e, Print_Warning e] @ fst (load_stage w)
       \<and> snd (startup w) = load_data w ''./data''
       \<and> Load_Data ''./data'' \<in> set (fst (main w)))
   \<and> (\<forall>e. snd (downloads w corpora) = Inl e \<and> \<not> is_Exception e \<longrightarrow>
       snd (main w) = Inl e \<and> Load_Data ''./data'' \<notin> set (fst (main w)))
   \<and> (\<forall>h e. Caught h e \<in> set (fst (main w)) \<longrightarrow>
         (h = Except_Exception \<and> is_Exception e \<and> snd (downloads w corpora) = Inl e)
       \<or> (h = Except_AttributeError \<and> e = AttributeError ''_create_unverified_context''
           \<and> create_unverified_context (ssl w) = None))
   \<and> ((\<exists>e. snd (downloads w corpora) = Inl e)
        \<longleftrightarrow> (\<exists>c \<in> set corpora. \<exists>e. nltk_download w c = Inl e))
   \<and> (\<forall>i e. i < length corpora \<and> nltk_download w (corpora ! i) = Inl e
          \<and> (\<forall>j<i. \<exists>ok. nltk_download w (corpora ! j) = Inr ok) \<longrightarrow>
        downloads w corpora = (map Download (take (Suc i) corpora), Inl e)
        \<and> (is_Exception e \<longrightarrow>
             startup w =
               (fst (ssl_stage (ssl w)) @ map Download (take (Suc i) corpora)
                  @ [Caught Except_Exception e, Print_Warning e] @ fst (load_stage w),
                load_data w ''./data''))
        \<and> (\<not> is_Exception e \<longrightarrow>
             main w =
               (fst (ssl_stage (ssl w)) @ map Download (take (Suc i) corpora), Inl e)))
   \<and> ((\<exists>c \<in> set corpora. \<exists>e. nltk_download w c = Inl e) \<longrightarrow>
        (\<exists>i e. i < length corpora \<and> nltk_download w (corpora ! i) = Inl e
           \<and> (\<forall>j<i. \<exists>ok. nltk_download w (corpora ! j) = Inr ok)))
   \<and> ((\<forall>c \<in> set corpora. \<exists>ok. nltk_download w c = Inr ok) \<longrightarrow>
        downloads w corpora = (map Download corpora, Inr ()))
   \<and> corpora = [''stopwords'', ''punkt'', ''punkt_tab'']
   \<and> fst (ssl_stage (ssl w)) =
        (case create_unverified_context (ssl w) of
           None \<Rightarrow> [Caught Except_AttributeError (AttributeError ''_create_unverified_context'')]
         | Some f \<Rightarrow> [])
   \<and> fst (load_stage w) = Load_Data ''./data'' #
        (case load_data w ''./data'' of
           Inl e \<Rightarrow> []
         | Inr docs \<Rightarrow> [Print_Loaded (length docs)])"
proof -
  have caught: "fst (startup w) = fst (ssl_stage (ssl w)) @ fst (downloads w corpora)
          @ [Caught Except_Exception e, Print_Warning e] @ fst (load_stage w)
       \<and> snd (startup w) = load_data w ''./data''
       \<and> Load_Data ''./data'' \<in> set (fst (main w))"
    if a: "snd (downloads w corpora) = Inl e \<and> is_Exception e" for e
  proof (intro conjI)
    from a show t: "fst (startup w) = fst (ssl_stage (ssl w)) @ fst (downloads w corpora)
          @ [Caught Except_Exception e, Print_Warning e] @ fst (load_stage w)"
      by (simp add: startup_trace nltk_stage_trace nltk_stage_result)
    from a show "snd (startup w) = load_data w ''./data''"
      by (simp add: startup_result nltk_stage_result load_stage_result)
    show "Load_Data ''./data'' \<in> set (fst (main w))"
      by (simp add: main_trace t load_stage_trace)
  qed
  have interrupted: "main w = (fst (ssl_stage (ssl w)) @ fst (downloads w corpora), Inl e)"
    if a: "snd (downloads w corpora) = Inl e \<and> \<not> is_Exception e" for e
    using a by (simp add: main_interrupted)
  have c1: "\<forall>e. snd (downloads w corpora) = Inl e \<and> is_Exception e \<longrightarrow>
       fst (startup w) = fst (ssl_stage (ssl w)) @ fst (downloads w corpora)
          @ [Caught Except_Exception e, Print_Warning e] @ fst (load_stage w)
       \<and> snd (startup w) = load_data w ''./data''
       \<and> Load_Data ''./data'' \<in> set (fst (main w))"
    using caught by blast
  have c2: "\<forall>e. snd (downloads w corpora) = Inl e \<and> \<not> is_Exception e \<longrightarrow>
       snd (main w) = Inl e \<and> Load_Data ''./data'' \<notin> set (fst (main w))"
  proof (intro allI impI)
    fix e assume a: "snd (downloads w corpora) = Inl e \<and> \<not> is_Exception e"
    note m = interrupted [OF a]
    show "snd (main w) = Inl e \<and> Load_Data ''./data'' \<notin> set (fst (main w))"
      by (simp add: m ssl_stage_trace downloads_no_load split: option.splits)
  qed
  have c3: "\<forall>h e. Caught h e \<in> set (fst (main w)) \<longrightarrow>
         (h = Except_Exception \<and> is_Exception e \<and> snd (downloads w corpora) = Inl e)
       \<or> (h = Except_AttributeError \<and> e = AttributeError ''_create_unverified_context''
           \<and> create_unverified_context (ssl w) = None)"
  proof (intro allI impI)
    fix h e assume "Caught h e \<in> set (fst (main w))"
    then have "Caught h e \<in> set (fst (startup w))"
      using main_after_startup [of "Caught h e" w] by simp
    then show "(h = Except_Exception \<and> is_Exception e \<and> snd (downloads w corpora) = Inl e)
       \<or> (h = Except_AttributeError \<and> e = AttributeError ''_create_unverified_context''
           \<and> create_unverified_context (ssl w) = None)"
      by (rule startup_caught)
  qed
  have c4: "(\<exists>e. snd (downloads w corpora) = Inl e)
        \<longleftrightarrow> (\<exists>c \<in> set corpora. \<exists>e. nltk_download w c = Inl e)"
    by (rule downloads_raises)
  have c5: "\<forall>i e. i < length corpora \<and> nltk_download w (corpora ! i) = Inl e
          \<and> (\<forall>j<i. \<exists>ok. nltk_download w (corpora ! j) = Inr ok) \<longrightarrow>
        downloads w corpora = (map Download (take (Suc i) corpora), Inl e)
        \<and> (is_Exception e \<longrightarrow>
             startup w =
               (fst (ssl_stage (ssl w)) @ map Download (take (Suc i) corpora)
                  @ [Caught Except_Exception e, Print_Warning e] @ fst (load_stage w),
                load_data w ''./data''))
        \<and> (\<not> is_Exception e \<longrightarrow>
             main w =
               (fst (ssl_stage (ssl w)) @ map Download (take (Suc i) corpora), Inl e))"
  proof (intro allI impI conjI)
    fix i e
    assume a: "i < length corpora \<and> nltk_download w (corpora ! i) = Inl e
          \<and> (\<forall>j<i. \<exists>ok. nltk_download w (corpora ! j) = Inr ok)"
    then show d: "downloads w corpora = (map Download (take (Suc i) corpora), Inl e)"
      by (simp add: downloads_first_failure)
    show "startup w =
               (fst (ssl_stage (ssl w)) @ map Download (take (Suc i) corpora)
                  @ [Caught Except_Exception e, Print_Warning e] @ fst (load_stage w),
                load_data w ''./data'')"
      if "is_Exception e"
      using caught [of e] that d by (simp add: prod_eq_iff)
    show "main w =
               (fst (ssl_stage (ssl w)) @ map Download (take (Suc i) corpora), Inl e)"
      if "\<not> is_Exception e"
      using interrupted [of e] that d by simp
  qed
  have c6: "(\<exists>c \<in> set corpora. \<exists>e. nltk_download w c = Inl e) \<longrightarrow>
        (\<exists>i e. i < length corpora \<and> nltk_download w (corpora ! i) = Inl e
           \<and> (\<forall>j<i. \<exists>ok. nltk_download w (corpora ! j) = Inr ok))"
  proof
    assume "\<exists>c \<in> set corpora. \<exists>e. nltk_download w c = Inl e"
    with c4 obtain e where "snd (downloads w corpora) = Inl e" by blast
    from downloads_failure_index [OF this]
    show "\<exists>i e. i < length corpora \<and> nltk_download w (corpora ! i) = Inl e
           \<and> (\<forall>j<i. \<exists>ok. nltk_download w (corpora ! j) = Inr ok)"
      by blast
  qed
  have c7: "(\<forall>c \<in> set corpora. \<exists>ok. nltk_download w c = Inr ok) \<longrightarrow>
        downloads w corpora = (map Download corpora, Inr ())"
    by (simp add: downloads_none_fails)
  have c8: "corpora = [''stopwords'', ''punkt'', ''punkt_tab'']"
    by (simp add: corpora_def)
  have c9: "fst (ssl_stage (ssl w)) =
        (case create_unverified_context (ssl w) of
           None \<Rightarrow> [Caught Except_AttributeError (AttributeError ''_create_unverified_context'')]
         | Some f \<Rightarrow> [])"
    by (rule ssl_stage_trace)
  have c10: "fst (load_stage w) = Load_Data ''./data'' #
        (case load_data w ''./data'' of
           Inl e \<Rightarrow> []
         | Inr docs \<Rightarrow> [Print_Loaded (length docs)])"
    by (rule load_stage_trace)
  show ?thesis
    by (intro conjI; (rule c1 c2 c3 c4 c5 c6 c7 c8 c9 c10))
qed

theorem download_failure_caught_witness:
  "downloads world_download_fails corpora
     = ([Download ''stopwords'', Download ''punkt''],
        Inl (OtherException ''network unreachable''))
   \<and> is_Exception (OtherException ''network unreachable'')
   \<and> startup world_download_fails
     = ([Download ''stopwords'', Download ''punkt'',
         Caught Except_Exception (OtherException ''network unreachable''),
         Print_Warning (OtherException ''network unreachable''),
         Load_Data ''./data'', Print_Loaded 1],
        Inr [pdf_page])"
proof -
  let ?e = "OtherException ''network unreachable''"
  have f: "1 < length corpora \<and> nltk_download world_download_fails (corpora ! 1) = Inl ?e
      \<and> (\<forall>j<1. \<exists>ok. nltk_download world_download_fails (corpora ! j) = Inr ok)"
    by (auto simp add: corpora_def world_download_fails_def)
  have all: "\<forall>i e. i < length corpora \<and> nltk_download world_download_fails (corpora ! i) = Inl e
          \<and> (\<forall>j<i. \<exists>ok. nltk_download world_download_fails (corpora ! j) = Inr ok) \<longrightarrow>
        downloads world_download_fails corpora = (map Download (take (Suc i) corpora), Inl e)
        \<and> (is_Exception e \<longrightarrow>
             startup world_download_fails =
               (fst (ssl_stage (ssl world_download_fails)) @ map Download (take (Suc i) corpora)
                  @ [Caught Except_Exception e, Print_Warning e]
                  @ fst (load_stage world_download_fails),
                load_data world_download_fails ''./data''))
        \<and> (\<not> is_Exception e \<longrightarrow>
             main world_download_fails =
               (fst (ssl_stage (ssl world_download_fails))
                  @ map Download (take (Suc i) corpora), Inl e))"
    using download_failure_caught [of world_download_fails] by (elim conjE)
  from all f have d: "downloads world_download_fails corpora
        = (map Download (take (Suc 1) corpora), Inl ?e)"
    and st: "startup world_download_fails =
               (fst (ssl_stage (ssl world_download_fails)) @ map Download (take (Suc 1) corpora)
                  @ [Caught Except_Exception ?e, Print_Warning ?e]
                  @ fst (load_stage world_download_fails),
                load_data world_download_fails ''./data'')"
    by (metis is_Exception.simps(6))+
  have s: "fst (ssl_stage (ssl world_download_fails)) = []"
    by code_simp
  have l: "fst (load_stage world_download_fails) = [Load_Data ''./data'', Print_Loaded 1]"
    by code_simp
  have r: "load_data world_download_fails ''./data'' = Inr [pdf_page]"
    by (simp add: world_download_fails_def sample_world_def)
  from d st s l r show ?thesis by (simp add: corpora_def)
qed

section \<open>The query\<close>

text \<open>
  Claim C9. With the API key set and the query embedded as \<open>qv\<close>, the query stage
  embeds the one query of the script, retrieves the five stored chunks most similar to
  \<open>qv\<close>, and hands these chunks and the query to the hosted model
  \<open>llama-3.3-70b-versatile\<close> (the pipeline's model is \<open>llama-3.1-8b-instant\<close>); the
  response carries the model's answer and the retrieved chunks. The retrieved chunks are
  the first five of the stored chunks ranked by similarity: five of them, or all when
  fewer are stored, each a stored chunk, and none of the chunks left out is more similar
  to the query than a retrieved one. The chunks stored in an index are the nodes it was
  built from. A run of the script asks the hosted model for an answer at most once.
\<close>

theorem query_retrieves_top_5:
  assumes key: "load_dotenv (dotenv_file w) (environ w) ''GROQ_API_KEY'' = Some key"
    and qv: "get_text_embedding w (embed_model idx) the_query = Inr qv"
  shows "snd (query_stage w idx) =
       (case synthesize w \<lparr>model = ''llama-3.3-70b-versatile'', api_key = key\<rparr>
               (retrieve w 5 idx qv) the_query of
          Inl e \<Rightarrow> Inl e
        | Inr a \<Rightarrow> Inr \<lparr>answer = a, source_nodes = retrieve w 5 idx qv\<rparr>)
   \<and> take 2 (fst (query_stage w idx)) =
       [Embed_Text (embed_model idx) the_query,
        Synthesize \<lparr>model = ''llama-3.3-70b-versatile'', api_key = key\<rparr>
          (retrieve w 5 idx qv) the_query]
   \<and> length (retrieve w 5 idx qv) = min 5 (length (entries idx))
   \<and> retrieve w 5 idx qv = map fst (take 5 (ranked w idx qv))
   \<and> mset (take 5 (ranked w idx qv)) + mset (drop 5 (ranked w idx qv)) = mset (entries idx)
   \<and> (\<forall>x \<in> set (take 5 (ranked w idx qv)). \<forall>y \<in> set (drop 5 (ranked w idx qv)).
         similarity w qv (snd y) \<le> similarity w qv (snd x))
   \<and> (\<forall>nodes m built. snd (VectorStoreIndex w nodes m) = Inr built \<longrightarrow>
         map fst (entries built) = nodes \<and> embed_model built = m)
   \<and> length (filter is_Synthesize (fst (main w))) \<le> 1"
proof (intro conjI ballI allI impI)
  show "snd (query_stage w idx) =
       (case synthesize w \<lparr>model = ''llama-3.3-70b-versatile'', api_key = key\<rparr>
               (retrieve w 5 idx qv) the_query of
          Inl e \<Rightarrow> Inl e
        | Inr a \<Rightarrow> Inr \<lparr>answer = a, source_nodes = retrieve w 5 idx qv\<rparr>)"
    by (simp add: query_stage_run [OF key] query_run qv split: sum.splits)
  show "take 2 (fst (query_stage w idx)) =
       [Embed_Text (embed_model idx) the_query,
        Synthesize \<lparr>model = ''llama-3.3-70b-versatile'', api_key = key\<rparr>
          (retrieve w 5 idx qv) the_query]"
    by (simp add: query_stage_run [OF key] query_run qv split: sum.splits)
  show "length (retrieve w 5 idx qv) = min 5 (length (entries idx))"
    by (rule length_retrieve)
  show "retrieve w 5 idx qv = map fst (take 5 (ranked w idx qv))"
    by (simp add: retrieve_def)
  show "mset (take 5 (ranked w idx qv)) + mset (drop 5 (ranked w idx qv)) = mset (entries idx)"
    by (rule ranked_split)
  show "similarity w qv (snd y) \<le> similarity w qv (snd x)"
    if "x \<in> set (take 5 (ranked w idx qv))" "y \<in> set (drop 5 (ranked w idx qv))" for x y
    using that by (rule ranked_dominates)
  show "map fst (entries built) = nodes" "embed_model built = m"
    if "snd (VectorStoreIndex w nodes m) = Inr built" for nodes m built
    using VectorStoreIndex_entries [OF that] by simp_all
  show "length (filter is_Synthesize (fst (main w))) \<le> 1"
    by (rule main_one_Synthesize)
qed

theorem query_retrieves_top_5_witness:
  "load_dotenv (dotenv_file sample_world) (environ sample_world) ''GROQ_API_KEY''
     = Some ''gsk_test''
   \<and> get_text_embedding sample_world (embed_model sample_index) the_query = Inr [35]
   \<and> map doc_id (retrieve sample_world 5 sample_index [35])
     = [''n2'', ''n5'', ''n6'', ''n7'', ''n4'']
   \<and> snd (query_stage sample_world sample_index)
     = Inr \<lparr>answer = ''It is about attention.'',
            source_nodes = retrieve sample_world 5 sample_index [35]\<rparr>"
proof -
  have k: "load_dotenv (dotenv_file sample_world) (environ sample_world) ''GROQ_API_KEY''
      = Some ''gsk_test''"
    by (simp add: load_dotenv_def sample_world_def)
  have q: "get_text_embedding sample_world (embed_model sample_index) the_query = Inr [35]"
    by (simp add: sample_world_def the_query_def)
  have n: "map doc_id (retrieve sample_world 5 sample_index [35])
      = [''n2'', ''n5'', ''n6'', ''n7'', ''n4'']"
    by code_simp
  have a: "synthesize sample_world llm chunks q = Inr ''It is about attention.''" for llm chunks q
    by (simp add: sample_world_def)
  from query_retrieves_top_5 [OF k q] k q n a show ?thesis by simp
qed

end
